theory Spec2Isabelle
  imports Main "HOL-Library.Word"
begin

section \<open>The enum support of the sip module (sip\_enum.c)\<close>

text \<open>
  The file bridges C/C++ enums and the enum classes of Python's \<open>enum\<close> module through
  the CPython API. The embedding keeps the source's functions and their order of
  statements. What the C code reaches through a pointer is passed in and handed back:
  the interpreter state and the file's static variables are one record \<open>world\<close>, the
  type descriptor and the member cursor are returned updated. A \<open>PyObject *\<close> is a
  \<open>pyval option\<close>, \<open>None\<close> being \<open>NULL\<close>. A C function that returns normally, also
  with an error code and a Python exception set, is an \<open>Inr\<close>; a failed \<open>assert\<close> and
  a step whose behaviour C leaves undefined (a \<open>NULL\<close> dereference, a read outside the
  member table, a freed object) are an \<open>Inl\<close>.
\<close>

subsection \<open>Python values and classes\<close>

type_synonym addr = nat
type_synonym c_int = "32 word"

text \<open>
  Classes have identity and are mutated in place, so they live in a heap and are referred
  to by address. All other values are immutable here and are compared by content.
  \<open>PyEnumMember a v\<close> is an instance of the enum class at address \<open>a\<close> whose
  \<open>value\<close> attribute is \<open>v\<close>. A capsule wraps the address of a type descriptor.
\<close>

datatype pyval =
    PyNone
  | PyLong int
  | PyUnicode string
  | PyCapsule nat
  | PyModule "(string \<times> pyval) list"
  | PyType addr
  | PyEnumMember addr pyval

type_synonym pydict = "(pyval \<times> pyval) list"

datatype pyexc =
    MemoryError
  | TypeError string
  | ValueError
  | AttributeError
  | ImportError
  | SystemError
  | OverflowError

datatype failure = AssertionFailed | Undefined

text \<open>
  A class of the enum family. \<open>tp_mro\<close> lists the classes it inherits from, nearest
  first; the class itself, which CPython stores in front, is left implicit.
  \<open>ob_refcnt\<close> counts the references held to the class object.
\<close>

record pyclass =
  ob_refcnt :: nat
  ob_type_name :: string
  tp_name :: string
  tp_mro :: "addr list"
  en_members :: pydict
  en_kwargs :: pydict
  tp_dict :: "(string \<times> pyval) list"
  tp_slots :: "nat list"

text \<open>The interpreter state together with the static variables of sip\_enum.c (lines 32-40).\<close>

record world =
  heap :: "addr \<Rightarrow> pyclass option"
  next_addr :: addr
  err :: "pyexc option"
  enum_type :: "pyval option"
  int_enum_type :: "pyval option"
  flag_type :: "pyval option"
  int_flag_type :: "pyval option"
  str_dunder_sip :: "pyval option"
  str_module :: "pyval option"
  str_qualname :: "pyval option"
  str_value :: "pyval option"

subsection \<open>The generated tables\<close>

text \<open>
  Modelled from the spec: the base type tags are declared in sip.h, which is not part of
  the sources at hand. sip\_enum.c names four of them; every other tag takes the final
  \<open>else\<close> of the factory selection, which is the plain \<open>enum.Enum\<close> flavour.
\<close>

datatype sipEnumBaseType =
    SIP_ENUM_ENUM
  | SIP_ENUM_FLAG
  | SIP_ENUM_INT_ENUM
  | SIP_ENUM_INT_FLAG
  | SIP_ENUM_UINT_ENUM

text \<open>
  The fields of \<open>sipEnumTypeDef\<close> that the file reads or writes. \<open>td_addr\<close> is the
  address of the descriptor itself (what the capsule wraps), \<open>td_py_type\<close> is
  \<open>etd_base.td_py_type\<close>, \<open>etd_name\<close> is what \<open>sipPyNameOfEnum\<close> yields.
\<close>

record sipEnumTypeDef =
  td_addr :: nat
  td_py_type :: "pyval option"
  etd_name :: string
  etd_base_type :: sipEnumBaseType
  etd_nr_members :: int
  etd_scope :: int
  etd_pyslots :: "nat list option"

record sipIntInstanceDef =
  ii_name :: "string option"
  ii_val :: c_int

text \<open>
  The client module: its name object and its table of types, each given by the qualified
  name of its Python type (all that \<open>sip_get_qualname\<close> reads of a scope).
\<close>

record sipExportedModuleDef =
  em_nameobj :: pyval
  em_types :: "string list"

subsection \<open>The environment\<close>

text \<open>The fallible calls of the file, by the source line of the call.\<close>

datatype site =
    S_PyUnicode_FromString          \<comment> \<open>line 123\<close>
  | S_PyDict_SetItem_parent         \<comment> \<open>line 134\<close>
  | S_sip_objectify string          \<comment> \<open>lines 200-209\<close>
  | S_PyDict_New_members            \<comment> \<open>line 237\<close>
  | S_PyLong_From nat               \<comment> \<open>lines 251 and 253, by iteration\<close>
  | S_sip_dict_set nat              \<comment> \<open>line 255, by iteration\<close>
  | S_PyTuple_Pack                  \<comment> \<open>line 263\<close>
  | S_PyDict_New_kw                 \<comment> \<open>line 266\<close>
  | S_PyDict_SetItem_module         \<comment> \<open>line 269\<close>
  | S_sip_get_qualname              \<comment> \<open>line 280\<close>
  | S_PyDict_SetItem_qualname       \<comment> \<open>line 283\<close>
  | S_PyCapsule_New                 \<comment> \<open>line 292\<close>
  | S_PyObject_Call                 \<comment> \<open>line 304\<close>
  | S_PyObject_SetAttr              \<comment> \<open>line 314\<close>
  | S_PyObject_CallFunction         \<comment> \<open>line 61\<close>

text \<open>
  What the code cannot decide by itself: the modules the interpreter can import, which
  calls fail for lack of resources or because the host rejects them, whether the host's
  enum class makes up a pseudo-member for a value it does not know, whether assertions
  are compiled out, and the lazy attribute loader of the type system, which may create
  the enum object of a descriptor.
\<close>

record host =
  h_modules :: "(string \<times> pyval) list"
  h_fault :: "site \<Rightarrow> bool"
  h_missing :: "addr \<Rightarrow> pyval \<Rightarrow> bool"
  NDEBUG :: bool
  sip_add_all_lazy_attrs :: "world \<Rightarrow> sipEnumTypeDef \<Rightarrow> int \<times> world \<times> sipEnumTypeDef"

subsection \<open>The CPython calls the file makes\<close>

definition PyErr_Set :: "pyexc \<Rightarrow> world \<Rightarrow> world" where
  "PyErr_Set e w = w\<lparr>err := Some e\<rparr>"

definition Py_INCREF :: "pyval \<Rightarrow> world \<Rightarrow> world" where
  "Py_INCREF v w =
     (case v of
        PyType a \<Rightarrow>
          (case heap w a of
             None \<Rightarrow> w
           | Some c \<Rightarrow> w\<lparr>heap := (heap w)(a := Some (c\<lparr>ob_refcnt := Suc (ob_refcnt c)\<rparr>))\<rparr>)
      | _ \<Rightarrow> w)"

text \<open>Dropping the last reference to a class frees it.\<close>

definition Py_DECREF :: "pyval \<Rightarrow> world \<Rightarrow> world" where
  "Py_DECREF v w =
     (case v of
        PyType a \<Rightarrow>
          (case heap w a of
             None \<Rightarrow> w
           | Some c \<Rightarrow>
               if ob_refcnt c \<le> 1 then w\<lparr>heap := (heap w)(a := None)\<rparr>
               else w\<lparr>heap := (heap w)(a := Some (c\<lparr>ob_refcnt := ob_refcnt c - 1\<rparr>))\<rparr>)
      | _ \<Rightarrow> w)"

definition Py_XDECREF :: "pyval option \<Rightarrow> world \<Rightarrow> world" where
  "Py_XDECREF p w = (case p of None \<Rightarrow> w | Some v \<Rightarrow> Py_DECREF v w)"

text \<open>The ancestors of the class at an address; a class that has been freed has none.\<close>

definition mro_of :: "world \<Rightarrow> addr \<Rightarrow> addr list" where
  "mro_of w a = (case heap w a of None \<Rightarrow> [] | Some c \<Rightarrow> tp_mro c)"

text \<open>Inclusive: every class is a subtype of itself.\<close>

definition PyType_IsSubtype :: "world \<Rightarrow> addr \<Rightarrow> addr \<Rightarrow> bool" where
  "PyType_IsSubtype w a b = (a = b \<or> b \<in> set (mro_of w a))"

text \<open>1, 0, or -1 with \<open>TypeError\<close> when an argument is not a class.\<close>

definition PyObject_IsSubclass ::
  "world \<Rightarrow> pyval \<Rightarrow> pyval option \<Rightarrow> failure + (int \<times> world)" where
  "PyObject_IsSubclass w derived cls =
     (case cls of
        None \<Rightarrow> Inl Undefined
      | Some c \<Rightarrow>
          (case derived of
             PyType a \<Rightarrow>
               (case c of
                  PyType b \<Rightarrow> Inr (if PyType_IsSubtype w a b then 1 else 0, w)
                | _ \<Rightarrow> Inr (- 1, PyErr_Set (TypeError ''issubclass() arg 2 must be a class'') w))
           | _ \<Rightarrow> Inr (- 1, PyErr_Set (TypeError ''issubclass() arg 1 must be a class'') w)))"

text \<open>
  Only members of enum classes are instances of a class of the heap: the types of the
  other values (\<open>int\<close>, \<open>str\<close>, the metaclass of a class) are not enum classes.
\<close>

definition PyObject_IsInstance ::
  "world \<Rightarrow> pyval \<Rightarrow> pyval option \<Rightarrow> failure + (int \<times> world)" where
  "PyObject_IsInstance w inst cls =
     (case cls of
        None \<Rightarrow> Inl Undefined
      | Some c \<Rightarrow>
          (case c of
             PyType b \<Rightarrow>
               (case inst of
                  PyEnumMember a v \<Rightarrow> Inr (if PyType_IsSubtype w a b then 1 else 0, w)
                | _ \<Rightarrow> Inr (0, w))
           | _ \<Rightarrow> Inr (- 1, PyErr_Set (TypeError ''isinstance() arg 2 must be a type'') w)))"

text \<open>\<open>Py_TYPE(obj)->tp_name\<close>; it needs the class of a member to be alive.\<close>

definition Py_TYPE_name :: "world \<Rightarrow> pyval \<Rightarrow> string option" where
  "Py_TYPE_name w obj =
     (case obj of
        PyNone \<Rightarrow> Some ''NoneType''
      | PyLong i \<Rightarrow> Some ''int''
      | PyUnicode s \<Rightarrow> Some ''str''
      | PyCapsule p \<Rightarrow> Some ''PyCapsule''
      | PyModule ats \<Rightarrow> Some ''module''
      | PyType a \<Rightarrow> map_option ob_type_name (heap w a)
      | PyEnumMember a v \<Rightarrow> map_option tp_name (heap w a))"

definition PyObject_GetAttrString :: "world \<Rightarrow> pyval \<Rightarrow> string \<Rightarrow> pyval option \<times> world" where
  "PyObject_GetAttrString w obj nm =
     (let found =
        (case obj of
           PyModule ats \<Rightarrow> map_of ats nm
         | PyEnumMember a v \<Rightarrow> (if nm = ''value'' then Some v else None)
         | PyType a \<Rightarrow> (case heap w a of None \<Rightarrow> None | Some c \<Rightarrow> map_of (tp_dict c) nm)
         | _ \<Rightarrow> None)
      in case found of
           None \<Rightarrow> (None, PyErr_Set AttributeError w)
         | Some v \<Rightarrow> (Some v, Py_INCREF v w))"

definition PyObject_GetAttr ::
  "world \<Rightarrow> pyval \<Rightarrow> pyval option \<Rightarrow> failure + (pyval option \<times> world)" where
  "PyObject_GetAttr w obj name =
     (case name of
        None \<Rightarrow> Inl Undefined
      | Some n \<Rightarrow>
          (case n of
             PyUnicode nm \<Rightarrow> Inr (PyObject_GetAttrString w obj nm)
           | _ \<Rightarrow> Inr (None, PyErr_Set (TypeError ''attribute name must be string'') w)))"

fun attr_set :: "string \<Rightarrow> pyval \<Rightarrow> (string \<times> pyval) list \<Rightarrow> (string \<times> pyval) list" where
  "attr_set k v [] = [(k, v)]"
| "attr_set k v ((k', v') # d) = (if k' = k then (k', v) # d else (k', v') # attr_set k v d)"

definition PyObject_SetAttr ::
  "host \<Rightarrow> world \<Rightarrow> pyval \<Rightarrow> pyval option \<Rightarrow> pyval \<Rightarrow> failure + (int \<times> world)" where
  "PyObject_SetAttr h w obj name v =
     (case name of
        None \<Rightarrow> Inl Undefined
      | Some n \<Rightarrow>
          (case obj of
             PyType a \<Rightarrow>
               (case heap w a of
                  None \<Rightarrow> Inl Undefined
                | Some c \<Rightarrow>
                    (case n of
                       PyUnicode nm \<Rightarrow>
                         if h_fault h S_PyObject_SetAttr then Inr (- 1, PyErr_Set MemoryError w)
                         else Inr (0, Py_INCREF v
                                (w\<lparr>heap := (heap w)(a := Some (c\<lparr>tp_dict := attr_set nm v (tp_dict c)\<rparr>))\<rparr>))
                     | _ \<Rightarrow> Inr (- 1, PyErr_Set (TypeError ''attribute name must be string'') w)))
           | _ \<Rightarrow> Inr (- 1, PyErr_Set AttributeError w)))"

text \<open>Insertion keeps the position of a key that is already there, as a Python dict does.\<close>

fun dict_set :: "pyval \<Rightarrow> pyval \<Rightarrow> pydict \<Rightarrow> pydict" where
  "dict_set k v [] = [(k, v)]"
| "dict_set k v ((k', v') # d) = (if k' = k then (k', v) # d else (k', v') # dict_set k v d)"

definition PyImport_ImportModule :: "host \<Rightarrow> world \<Rightarrow> string \<Rightarrow> pyval option \<times> world" where
  "PyImport_ImportModule h w nm =
     (case map_of (h_modules h) nm of
        None \<Rightarrow> (None, PyErr_Set ImportError w)
      | Some m \<Rightarrow> (Some m, w))"

text \<open>
  Calling an enum class with a value looks the member with that value up. What happens
  for a value that no member has is the host's business (\<open>h_missing\<close>): it raises or
  makes up a pseudo-member.
\<close>

definition PyObject_CallFunction ::
  "host \<Rightarrow> world \<Rightarrow> pyval option \<Rightarrow> pyval \<Rightarrow> failure + (pyval option \<times> world)" where
  "PyObject_CallFunction h w callable arg =
     (case callable of
        None \<Rightarrow> Inr (None, if err w = None then PyErr_Set SystemError w else w)
      | Some c \<Rightarrow>
          (case c of
             PyType a \<Rightarrow>
               (case heap w a of
                  None \<Rightarrow> Inl Undefined
                | Some cl \<Rightarrow>
                    if h_fault h S_PyObject_CallFunction then Inr (None, PyErr_Set MemoryError w)
                    else if arg \<in> set (map snd (en_members cl)) \<or> h_missing h a arg
                      then Inr (Some (PyEnumMember a arg), w)
                      else Inr (None, PyErr_Set ValueError w))
           | _ \<Rightarrow> Inr (None, PyErr_Set (TypeError ''object is not callable'') w)))"

text \<open>
  Calling an enum base class with a name, a mapping of members and keywords is the
  functional API of \<open>enum\<close>: it makes a new class derived from the base class.
\<close>

definition PyObject_Call ::
  "host \<Rightarrow> world \<Rightarrow> pyval option \<Rightarrow> pyval \<times> pydict \<Rightarrow> pydict \<Rightarrow> failure + (pyval option \<times> world)" where
  "PyObject_Call h w callable args kw =
     (case callable of
        None \<Rightarrow> Inl Undefined
      | Some c \<Rightarrow>
          (case c of
             PyType f \<Rightarrow>
               (case heap w f of
                  None \<Rightarrow> Inl Undefined
                | Some base \<Rightarrow>
                    (case fst args of
                       PyUnicode nm \<Rightarrow>
                         if h_fault h S_PyObject_Call then Inr (None, PyErr_Set ValueError w)
                         else Inr (Some (PyType (next_addr w)),
                                w\<lparr>heap := (heap w)(next_addr w := Some
                                     \<lparr>ob_refcnt = 1, ob_type_name = ob_type_name base, tp_name = nm,
                                      tp_mro = f # tp_mro base, en_members = snd args,
                                      en_kwargs = kw, tp_dict = [], tp_slots = []\<rparr>),
                                   next_addr := Suc (next_addr w)\<rparr>)
                     | _ \<Rightarrow> Inr (None, PyErr_Set (TypeError ''enum name must be a string'') w)))
           | _ \<Rightarrow> Inr (None, PyErr_Set (TypeError ''object is not callable'') w)))"

subsection \<open>Helpers of the sip module that live in other files\<close>

text \<open>
  Modelled from the spec: \<open>sip_api_long_as_int\<close> and \<open>sip_api_long_as_unsigned_int\<close>
  are defined in another file of the module. The spec has \<open>fromHostValue\<close> read the
  integer attribute and reinterpret it as signed or unsigned. An integer in the range
  of the C type converts to it; anything else sets an exception and gives -1.
\<close>

definition sip_api_long_as_int :: "world \<Rightarrow> pyval \<Rightarrow> c_int \<times> world" where
  "sip_api_long_as_int w ob =
     (case ob of
        PyLong i \<Rightarrow>
          if - (2 ^ 31) \<le> i \<and> i < 2 ^ 31 then (word_of_int i, w)
          else (- 1, PyErr_Set OverflowError w)
      | _ \<Rightarrow> (- 1, PyErr_Set (TypeError ''an integer is required'') w))"

definition sip_api_long_as_unsigned_int :: "world \<Rightarrow> pyval \<Rightarrow> c_int \<times> world" where
  "sip_api_long_as_unsigned_int w ob =
     (case ob of
        PyLong i \<Rightarrow>
          if 0 \<le> i \<and> i < 2 ^ 32 then (word_of_int i, w)
          else (- 1, PyErr_Set OverflowError w)
      | _ \<Rightarrow> (- 1, PyErr_Set (TypeError ''an integer is required'') w))"

text \<open>
  Modelled from the spec: \<open>sip_objectify\<close> interns an attribute name; it gives the
  string object and 0, or \<open>NULL\<close> and -1.
\<close>

definition sip_objectify :: "host \<Rightarrow> string \<Rightarrow> world \<Rightarrow> int \<times> pyval option \<times> world" where
  "sip_objectify h s w =
     (if h_fault h (S_sip_objectify s) then (- 1, None, PyErr_Set MemoryError w)
      else (0, Some (PyUnicode s), w))"

text \<open>
  Modelled from the spec: \<open>sip_dict_set_and_discard\<close> stores a value under a C string
  and gives up the reference to the value; a \<open>NULL\<close> value is an error already raised.
\<close>

definition sip_dict_set_and_discard ::
  "host \<Rightarrow> nat \<Rightarrow> world \<Rightarrow> pydict \<Rightarrow> string option \<Rightarrow> pyval option \<Rightarrow> failure + (int \<times> pydict \<times> world)" where
  "sip_dict_set_and_discard h i w d name obj =
     (case obj of
        None \<Rightarrow> Inr (- 1, d, w)
      | Some v \<Rightarrow>
          (case name of
             None \<Rightarrow> Inl Undefined
           | Some nm \<Rightarrow>
               if h_fault h (S_sip_dict_set i) then Inr (- 1, d, PyErr_Set MemoryError w)
               else Inr (0, dict_set (PyUnicode nm) v d, w)))"

text \<open>
  Modelled from the spec: \<open>sip_get_qualname\<close> makes the qualified name
  \<open><scope's qualified name>.<name>\<close>.
\<close>

definition sip_get_qualname :: "host \<Rightarrow> world \<Rightarrow> string \<Rightarrow> pyval \<Rightarrow> pyval option \<times> world" where
  "sip_get_qualname h w scope name =
     (case name of
        PyUnicode nm \<Rightarrow>
          if h_fault h S_sip_get_qualname then (None, PyErr_Set MemoryError w)
          else (Some (PyUnicode (scope @ ''.'' @ nm)), w)
      | _ \<Rightarrow> (None, PyErr_Set (TypeError ''name must be a string'') w))"

text \<open>Modelled from the spec: \<open>sip_add_type_slots\<close> attaches the extra behaviour to the class.\<close>

definition sip_add_type_slots :: "world \<Rightarrow> pyval \<Rightarrow> nat list \<Rightarrow> world" where
  "sip_add_type_slots w obj slots =
     (case obj of
        PyType a \<Rightarrow>
          (case heap w a of
             None \<Rightarrow> w
           | Some c \<Rightarrow> w\<lparr>heap := (heap w)(a := Some (c\<lparr>tp_slots := slots\<rparr>))\<rparr>)
      | _ \<Rightarrow> w)"

subsection \<open>sip\_enum.c: classification, resolution and conversion\<close>

text \<open>Line 29. Flags are implicitly unsigned.\<close>

definition IS_UNSIGNED_ENUM :: "sipEnumTypeDef \<Rightarrow> bool" where
  "IS_UNSIGNED_ENUM etd =
     (etd_base_type etd = SIP_ENUM_UINT_ENUM \<or> etd_base_type etd = SIP_ENUM_INT_FLAG
      \<or> etd_base_type etd = SIP_ENUM_FLAG)"

text \<open>Lines 295-302: the base class that is called to make the enum.\<close>

definition enum_factory :: "world \<Rightarrow> sipEnumTypeDef \<Rightarrow> pyval option" where
  "enum_factory w etd =
     (if etd_base_type etd = SIP_ENUM_INT_FLAG then int_flag_type w
      else if etd_base_type etd = SIP_ENUM_FLAG then flag_type w
      else if etd_base_type etd = SIP_ENUM_INT_ENUM \<or> etd_base_type etd = SIP_ENUM_UINT_ENUM
        then int_enum_type w
      else enum_type w)"

text \<open>Lines 357-373. The descriptor's slot is read again after the lazy attributes were added.\<close>

definition get_enum_type ::
  "host \<Rightarrow> world \<Rightarrow> sipEnumTypeDef \<Rightarrow> pyval option \<times> world \<times> sipEnumTypeDef" where
  "get_enum_type h w td =
     (case td_py_type td of
        Some type_obj \<Rightarrow> (Some type_obj, w, td)
      | None \<Rightarrow>
          (case sip_add_all_lazy_attrs h w td of
             (rc, w1, td1) \<Rightarrow> if rc < 0 then (None, w1, td1) else (td_py_type td1, w1, td1)))"

text \<open>
  Lines 53-63. The format \<open>(I)\<close> reads the \<open>int\<close> argument as \<open>unsigned int\<close>, the
  format \<open>(i)\<close> as \<open>int\<close>.
\<close>

definition sip_api_convert_from_enum ::
  "host \<Rightarrow> world \<Rightarrow> c_int \<Rightarrow> sipEnumTypeDef \<Rightarrow> failure + (pyval option \<times> world \<times> sipEnumTypeDef)" where
  "sip_api_convert_from_enum h w member td =
     (case get_enum_type h w td of
        (et, w1, td1) \<Rightarrow>
          (case PyObject_CallFunction h w1 et
                  (PyLong (if IS_UNSIGNED_ENUM td1 then uint member else sint member)) of
             Inl f \<Rightarrow> Inl f
           | Inr (r, w2) \<Rightarrow> Inr (r, w2, td1)))"

definition enum_expected_msg :: "string \<Rightarrow> string \<Rightarrow> string" where
  "enum_expected_msg e t =
     ''a member of enum '' @ [CHR 0x27] @ e @ [CHR 0x27] @ '' is expected not ''
       @ [CHR 0x27] @ t @ [CHR 0x27]"

text \<open>Lines 347-351.\<close>

definition enum_expected :: "world \<Rightarrow> pyval \<Rightarrow> sipEnumTypeDef \<Rightarrow> failure + world" where
  "enum_expected w obj td =
     (case Py_TYPE_name w obj of
        None \<Rightarrow> Inl Undefined
      | Some t \<Rightarrow> Inr (PyErr_Set (TypeError (enum_expected_msg (etd_name td) t)) w))"

text \<open>
  Lines 70-100. The result is a C \<open>int\<close>, to be read with \<open>sint\<close>; the cast
  \<open>(int)\<close> of line 93 keeps the 32 bits of the \<open>unsigned int\<close>. -1 is also what
  every error path returns.
\<close>

definition sip_api_convert_to_enum ::
  "host \<Rightarrow> world \<Rightarrow> pyval \<Rightarrow> sipEnumTypeDef \<Rightarrow> failure + (c_int \<times> world \<times> sipEnumTypeDef)" where
  "sip_api_convert_to_enum h w obj td =
     (case get_enum_type h w td of
        (type_obj, w1, td1) \<Rightarrow>
          (case PyObject_IsInstance w1 obj type_obj of
             Inl f \<Rightarrow> Inl f
           | Inr (r, w2) \<Rightarrow>
               if r \<le> 0 then
                 (case enum_expected w2 obj td1 of
                    Inl f \<Rightarrow> Inl f
                  | Inr w3 \<Rightarrow> Inr (- 1, w3, td1))
               else
                 (case PyObject_GetAttr w2 obj (str_value w2) of
                    Inl f \<Rightarrow> Inl f
                  | Inr (None, w3) \<Rightarrow> Inr (- 1, w3, td1)
                  | Inr (Some val_obj, w3) \<Rightarrow>
                      (case (if IS_UNSIGNED_ENUM td1 then sip_api_long_as_unsigned_int w3 val_obj
                             else sip_api_long_as_int w3 val_obj) of
                         (val, w4) \<Rightarrow> Inr (val, Py_DECREF val_obj w4, td1)))))"

text \<open>Lines 106-109.\<close>

definition sip_api_is_enum_flag :: "world \<Rightarrow> pyval \<Rightarrow> failure + (int \<times> world)" where
  "sip_api_is_enum_flag w obj =
     (case PyObject_IsSubclass w obj (flag_type w) of
        Inl f \<Rightarrow> Inl f
      | Inr (r, w1) \<Rightarrow> Inr (if r = 1 then 1 else 0, w1))"

subsection \<open>sip\_enum.c: initialisation\<close>

text \<open>Lines 199-212.\<close>

definition init_strings :: "host \<Rightarrow> world \<Rightarrow> int \<times> world" where
  "init_strings h w =
     (case sip_objectify h ''__sip__'' w of
        (rc1, p1, w1) \<Rightarrow>
          if rc1 < 0 then (- 1, w1\<lparr>str_dunder_sip := p1\<rparr>)
          else
            (case sip_objectify h ''module'' (w1\<lparr>str_dunder_sip := p1\<rparr>) of
               (rc2, p2, w2) \<Rightarrow>
                 if rc2 < 0 then (- 1, w2\<lparr>str_module := p2\<rparr>)
                 else
                   (case sip_objectify h ''qualname'' (w2\<lparr>str_module := p2\<rparr>) of
                      (rc3, p3, w3) \<Rightarrow>
                        if rc3 < 0 then (- 1, w3\<lparr>str_qualname := p3\<rparr>)
                        else
                          (case sip_objectify h ''value'' (w3\<lparr>str_qualname := p3\<rparr>) of
                             (rc4, p4, w4) \<Rightarrow>
                               if rc4 < 0 then (- 1, w4\<lparr>str_value := p4\<rparr>)
                               else (0, w4\<lparr>str_value := p4\<rparr>)))))"

text \<open>Lines 182-187: the four base classes are looked up whatever the earlier lookups gave.\<close>

definition get_enum_types :: "world \<Rightarrow> pyval \<Rightarrow> world" where
  "get_enum_types w obj =
     (case PyObject_GetAttrString w obj ''Enum'' of
        (p1, w1) \<Rightarrow>
          (case PyObject_GetAttrString (w1\<lparr>enum_type := p1\<rparr>) obj ''IntEnum'' of
             (p2, w2) \<Rightarrow>
               (case PyObject_GetAttrString (w2\<lparr>int_enum_type := p2\<rparr>) obj ''Flag'' of
                  (p3, w3) \<Rightarrow>
                    (case PyObject_GetAttrString (w3\<lparr>flag_type := p3\<rparr>) obj ''IntFlag'' of
                       (p4, w4) \<Rightarrow> Py_DECREF obj (w4\<lparr>int_flag_type := p4\<rparr>)))))"

text \<open>Lines 174-213.\<close>

definition sip_enum_init :: "host \<Rightarrow> world \<Rightarrow> int \<times> world" where
  "sip_enum_init h w =
     (case PyImport_ImportModule h w ''enum'' of
        (None, w0) \<Rightarrow> (- 1, w0)
      | (Some obj, w0) \<Rightarrow>
          (let w1 = get_enum_types w0 obj in
           if enum_type w1 = None \<or> int_enum_type w1 = None \<or> flag_type w1 = None
              \<or> int_flag_type w1 = None
           then (- 1, Py_XDECREF (int_flag_type w1) (Py_XDECREF (flag_type w1)
                        (Py_XDECREF (int_enum_type w1) (Py_XDECREF (enum_type w1) w1))))
           else init_strings h w1))"

subsection \<open>sip\_enum.c: creating an enum object\<close>

text \<open>
  Lines 243-259, the loop over the members. \<open>i\<close> is the loop counter, the fifth argument
  the number of iterations still to run, \<open>next_int\<close> the cursor as an index into the
  table. The result \<open>None\<close> is the jump to \<open>rel_members\<close>.
\<close>

fun members_loop ::
  "host \<Rightarrow> bool \<Rightarrow> sipIntInstanceDef list \<Rightarrow> nat \<Rightarrow> nat \<Rightarrow> nat \<Rightarrow> pydict \<Rightarrow> world
     \<Rightarrow> failure + ((nat \<times> pydict) option \<times> world)" where
  "members_loop h u tbl i 0 next_int members w = Inr (Some (next_int, members), w)"
| "members_loop h u tbl i (Suc k) next_int members w =
     (if length tbl \<le> next_int then Inl Undefined
      else if ii_name (tbl ! next_int) = None \<and> \<not> NDEBUG h then Inl AssertionFailed
      else
        (case sip_dict_set_and_discard h i
                (if h_fault h (S_PyLong_From i) then PyErr_Set MemoryError w else w)
                members (ii_name (tbl ! next_int))
                (if h_fault h (S_PyLong_From i) then None
                 else Some (PyLong (if u then uint (ii_val (tbl ! next_int))
                                    else sint (ii_val (tbl ! next_int))))) of
           Inl f \<Rightarrow> Inl f
         | Inr (rc, members1, w1) \<Rightarrow>
             if rc < 0 then Inr (None, w1)
             else members_loop h u tbl (Suc i) k (Suc next_int) members1 w1))"

text \<open>Lines 275-289. The result \<open>None\<close> is the jump to \<open>rel_kw_args\<close>.\<close>

definition set_qualname ::
  "host \<Rightarrow> world \<Rightarrow> sipExportedModuleDef \<Rightarrow> sipEnumTypeDef \<Rightarrow> pyval \<Rightarrow> pydict
     \<Rightarrow> failure + (pydict option \<times> world)" where
  "set_qualname h w client etd name kw_args =
     (if 0 \<le> etd_scope etd then
        (if length (em_types client) \<le> nat (etd_scope etd) then Inl Undefined
         else
           (case sip_get_qualname h w (em_types client ! nat (etd_scope etd)) name of
              (None, w1) \<Rightarrow> Inr (None, w1)
            | (Some qualname, w1) \<Rightarrow>
                (case str_qualname w1 of
                   None \<Rightarrow> Inl Undefined
                 | Some k \<Rightarrow>
                     if h_fault h S_PyDict_SetItem_qualname
                     then Inr (None, PyErr_Set MemoryError w1)
                     else Inr (Some (dict_set k qualname kw_args), w1))))
      else Inr (Some kw_args, w))"

text \<open>
  Lines 311-326. The descriptor's slot is written first; then the capsule is attached,
  and when that fails the object is released and \<open>NULL\<close> returned.
\<close>

definition finish_enum ::
  "host \<Rightarrow> world \<Rightarrow> sipEnumTypeDef \<Rightarrow> pyval \<Rightarrow> pyval \<Rightarrow> failure + (pyval option \<times> world \<times> sipEnumTypeDef)" where
  "finish_enum h w etd enum_obj etd_cap =
     (let etd1 = etd\<lparr>td_py_type := Some enum_obj\<rparr> in
      case PyObject_SetAttr h w enum_obj (str_dunder_sip w) etd_cap of
        Inl f \<Rightarrow> Inl f
      | Inr (rc, w1) \<Rightarrow>
          if rc < 0
          then Inr (None, Py_DECREF enum_obj (Py_DECREF etd_cap w1), etd1)
          else Inr (Some enum_obj,
                 (case etd_pyslots etd1 of
                    None \<Rightarrow> Py_DECREF etd_cap w1
                  | Some slots \<Rightarrow> sip_add_type_slots (Py_DECREF etd_cap w1) enum_obj slots),
                 etd1))"

text \<open>Lines 263-309: the arguments, the keywords, the capsule and the call of the base class.\<close>

definition create_tail ::
  "host \<Rightarrow> world \<Rightarrow> sipExportedModuleDef \<Rightarrow> sipEnumTypeDef \<Rightarrow> pyval \<Rightarrow> pydict
     \<Rightarrow> failure + (pyval option \<times> world \<times> sipEnumTypeDef)" where
  "create_tail h w client etd name members =
     (if h_fault h S_PyTuple_Pack then Inr (None, PyErr_Set MemoryError w, etd)
      else if h_fault h S_PyDict_New_kw then Inr (None, PyErr_Set MemoryError w, etd)
      else
        (case str_module w of
           None \<Rightarrow> Inl Undefined
         | Some k \<Rightarrow>
             if h_fault h S_PyDict_SetItem_module then Inr (None, PyErr_Set MemoryError w, etd)
             else
               (case set_qualname h w client etd name (dict_set k (em_nameobj client) []) of
                  Inl f \<Rightarrow> Inl f
                | Inr (None, w1) \<Rightarrow> Inr (None, w1, etd)
                | Inr (Some kw_args, w1) \<Rightarrow>
                    if h_fault h S_PyCapsule_New then Inr (None, PyErr_Set MemoryError w1, etd)
                    else
                      (case PyObject_Call h w1 (enum_factory w1 etd) (name, members) kw_args of
                         Inl f \<Rightarrow> Inl f
                       | Inr (None, w2) \<Rightarrow> Inr (None, w2, etd)
                       | Inr (Some enum_obj, w2) \<Rightarrow>
                           finish_enum h w2 etd enum_obj (PyCapsule (td_addr etd))))))"

text \<open>
  Lines 229-341. The cursor is \<open>*next_int_p\<close>: \<open>None\<close> is a \<open>NULL\<close> cursor, \<open>Some p\<close>
  points at entry \<open>p\<close> of the table. It is stored back (line 261) only when the loop
  has run to its end.
\<close>

definition create_enum_object ::
  "host \<Rightarrow> world \<Rightarrow> sipExportedModuleDef \<Rightarrow> sipEnumTypeDef \<Rightarrow> nat option
     \<Rightarrow> sipIntInstanceDef list \<Rightarrow> pyval
     \<Rightarrow> failure + (pyval option \<times> world \<times> sipEnumTypeDef \<times> nat option)" where
  "create_enum_object h w client etd next_int_p tbl name =
     (if h_fault h S_PyDict_New_members
      then Inr (None, PyErr_Set MemoryError w, etd, next_int_p)
      else
        (case next_int_p of
           None \<Rightarrow>
             if \<not> NDEBUG h then Inl AssertionFailed
             else if 0 < etd_nr_members etd then Inl Undefined
             else
               (case create_tail h w client etd name [] of
                  Inl f \<Rightarrow> Inl f
                | Inr (r, w1, etd1) \<Rightarrow> Inr (r, w1, etd1, None))
         | Some p \<Rightarrow>
             (case members_loop h (IS_UNSIGNED_ENUM etd) tbl 0 (nat (etd_nr_members etd)) p [] w of
                Inl f \<Rightarrow> Inl f
              | Inr (None, w1) \<Rightarrow> Inr (None, w1, etd, next_int_p)
              | Inr (Some (next_int, members), w1) \<Rightarrow>
                  (case create_tail h w1 client etd name members of
                     Inl f \<Rightarrow> Inl f
                   | Inr (r, w2, etd1) \<Rightarrow> Inr (r, w2, etd1, Some next_int)))))"

text \<open>
  Lines 116-141. \<open>dict\<close> is the dictionary of the enum's parent; it is handed back with
  the enum added.
\<close>

definition sip_enum_create ::
  "host \<Rightarrow> world \<Rightarrow> sipExportedModuleDef \<Rightarrow> sipEnumTypeDef \<Rightarrow> nat option
     \<Rightarrow> sipIntInstanceDef list \<Rightarrow> pydict
     \<Rightarrow> failure + (int \<times> world \<times> sipEnumTypeDef \<times> nat option \<times> pydict)" where
  "sip_enum_create h w client etd next_int_p tbl dict =
     (if h_fault h S_PyUnicode_FromString
      then Inr (- 1, PyErr_Set MemoryError w, etd, next_int_p, dict)
      else
        (case create_enum_object h w client etd next_int_p tbl (PyUnicode (etd_name etd)) of
           Inl f \<Rightarrow> Inl f
         | Inr (None, w1, etd1, cur1) \<Rightarrow>
             Inr (- 1, Py_DECREF (PyUnicode (etd_name etd)) w1, etd1, cur1, dict)
         | Inr (Some enum_obj, w1, etd1, cur1) \<Rightarrow>
             if h_fault h S_PyDict_SetItem_parent
             then Inr (- 1, Py_DECREF enum_obj (Py_DECREF (PyUnicode (etd_name etd))
                              (PyErr_Set MemoryError w1)), etd1, cur1, dict)
             else Inr (0, Py_DECREF enum_obj (Py_DECREF (PyUnicode (etd_name etd))
                            (Py_INCREF enum_obj w1)), etd1, cur1,
                       dict_set (PyUnicode (etd_name etd)) enum_obj dict)))"

text \<open>
  Modelled from the spec: the module loader, which is not in this file, registers the
  enums of a module in declaration order with one shared cursor and stops at the first
  failure.
\<close>

fun register_enums ::
  "host \<Rightarrow> world \<Rightarrow> sipExportedModuleDef \<Rightarrow> sipEnumTypeDef list \<Rightarrow> nat option
     \<Rightarrow> sipIntInstanceDef list \<Rightarrow> pydict
     \<Rightarrow> failure + (int \<times> world \<times> sipEnumTypeDef list \<times> nat option \<times> pydict)" where
  "register_enums h w client [] cur tbl dict = Inr (0, w, [], cur, dict)"
| "register_enums h w client (etd # etds) cur tbl dict =
     (case sip_enum_create h w client etd cur tbl dict of
        Inl f \<Rightarrow> Inl f
      | Inr (rc, w1, etd1, cur1, dict1) \<Rightarrow>
          if rc < 0 then Inr (rc, w1, etd1 # etds, cur1, dict1)
          else
            (case register_enums h w1 client etds cur1 tbl dict1 of
               Inl f \<Rightarrow> Inl f
             | Inr (rc2, w2, etds2, cur2, dict2) \<Rightarrow> Inr (rc2, w2, etd1 # etds2, cur2, dict2)))"

subsection \<open>A concrete host\<close>

text \<open>
  The \<open>enum\<close> module of the standard library with its four base classes at the
  addresses 0 to 3: \<open>IntEnum\<close> and \<open>Flag\<close> derive from \<open>Enum\<close>, \<open>IntFlag\<close> from
  \<open>Flag\<close>. No call fails, assertions are compiled in, and there are no lazy attributes
  to add.
\<close>

definition py_class :: "nat \<Rightarrow> string \<Rightarrow> addr list \<Rightarrow> pyclass" where
  "py_class rc nm bases =
     \<lparr>ob_refcnt = rc, ob_type_name = ''EnumType'', tp_name = nm, tp_mro = bases,
      en_members = [], en_kwargs = [], tp_dict = [], tp_slots = []\<rparr>"

definition py_enum_module :: pyval where
  "py_enum_module =
     PyModule [(''Enum'', PyType 0), (''IntEnum'', PyType 1), (''Flag'', PyType 2),
               (''IntFlag'', PyType 3)]"

definition py_host :: host where
  "py_host =
     \<lparr>h_modules = [(''enum'', py_enum_module)], h_fault = (\<lambda>s. False),
      h_missing = (\<lambda>a v. False), NDEBUG = False,
      sip_add_all_lazy_attrs = (\<lambda>w td. (0, w, td))\<rparr>"

text \<open>The interpreter before \<open>sip_enum_init\<close>: the static variables are \<open>NULL\<close>.\<close>

definition py_world :: world where
  "py_world =
     \<lparr>heap = map_of [(0, py_class 1 ''Enum'' []), (1, py_class 1 ''IntEnum'' [0]),
                     (2, py_class 1 ''Flag'' [0]), (3, py_class 1 ''IntFlag'' [2, 0])],
      next_addr = 4, err = None,
      enum_type = None, int_enum_type = None, flag_type = None, int_flag_type = None,
      str_dunder_sip = None, str_module = None, str_qualname = None, str_value = None\<rparr>"

text \<open>The interpreter after a successful \<open>sip_enum_init\<close>.\<close>

definition py_ready :: world where
  "py_ready =
     \<lparr>heap = map_of [(0, py_class 2 ''Enum'' []), (1, py_class 2 ''IntEnum'' [0]),
                     (2, py_class 2 ''Flag'' [0]), (3, py_class 2 ''IntFlag'' [2, 0])],
      next_addr = 4, err = None,
      enum_type = Some (PyType 0), int_enum_type = Some (PyType 1),
      flag_type = Some (PyType 2), int_flag_type = Some (PyType 3),
      str_dunder_sip = Some (PyUnicode ''__sip__''), str_module = Some (PyUnicode ''module''),
      str_qualname = Some (PyUnicode ''qualname''), str_value = Some (PyUnicode ''value'')\<rparr>"

definition py_client :: sipExportedModuleDef where
  "py_client = \<lparr>em_nameobj = PyUnicode ''mod'', em_types = [''Outer'']\<rparr>"

definition py_etd :: "sipEnumBaseType \<Rightarrow> int \<Rightarrow> sipEnumTypeDef" where
  "py_etd b n =
     \<lparr>td_addr = 7, td_py_type = None, etd_name = ''Color'', etd_base_type = b,
      etd_nr_members = n, etd_scope = - 1, etd_pyslots = None\<rparr>"

definition py_table :: "sipIntInstanceDef list" where
  "py_table =
     [\<lparr>ii_name = Some ''A'', ii_val = 1\<rparr>, \<lparr>ii_name = Some ''B'', ii_val = - 1\<rparr>,
      \<lparr>ii_name = None, ii_val = 0\<rparr>]"

text \<open>The world after the enum \<open>Color\<close> has been created at address 4, and its descriptor.\<close>

definition py_color_class :: "addr list \<Rightarrow> pydict \<Rightarrow> pyclass" where
  "py_color_class bases ms =
     \<lparr>ob_refcnt = 1, ob_type_name = ''EnumType'', tp_name = ''Color'', tp_mro = bases,
      en_members = ms, en_kwargs = [(PyUnicode ''module'', PyUnicode ''mod'')],
      tp_dict = [(''__sip__'', PyCapsule 7)], tp_slots = []\<rparr>"

definition py_color_world :: "addr list \<Rightarrow> pydict \<Rightarrow> world" where
  "py_color_world bases ms =
     py_ready\<lparr>heap := (heap py_ready)(4 := Some (py_color_class bases ms)), next_addr := 5\<rparr>"

definition py_flag_world :: world where
  "py_flag_world =
     py_color_world [3, 2, 0] [(PyUnicode ''A'', PyLong 1), (PyUnicode ''B'', PyLong 4294967295)]"

definition py_int_world :: world where
  "py_int_world =
     py_color_world [1, 0] [(PyUnicode ''A'', PyLong 1), (PyUnicode ''B'', PyLong (- 1))]"

definition py_made :: "sipEnumBaseType \<Rightarrow> sipEnumTypeDef" where
  "py_made b = (py_etd b 2)\<lparr>td_py_type := Some (PyType 4)\<rparr>"

definition py_etds :: "sipEnumTypeDef list" where
  "py_etds = [py_etd SIP_ENUM_INT_FLAG 1, (py_etd SIP_ENUM_ENUM 1)\<lparr>etd_name := ''Mode''\<rparr>]"

text \<open>Hosts in which one call fails, and one whose \<open>enum\<close> module has no \<open>IntFlag\<close>.\<close>

definition py_host_setattr_fails :: host where
  "py_host_setattr_fails = py_host\<lparr>h_fault := (\<lambda>s. s = S_PyObject_SetAttr)\<rparr>"

definition py_host_intern_fails :: host where
  "py_host_intern_fails = py_host\<lparr>h_fault := (\<lambda>s. s = S_sip_objectify ''module'')\<rparr>"

definition py_host_no_intflag :: host where
  "py_host_no_intflag =
     py_host\<lparr>h_modules := [(''enum'',
        PyModule [(''Enum'', PyType 0), (''IntEnum'', PyType 1), (''Flag'', PyType 2)])]\<rparr>"

subsection \<open>Notions used to state the properties\<close>

text \<open>The member mapping after one more table entry has been added to it (lines 249-255).\<close>

definition add_member :: "bool \<Rightarrow> pydict \<Rightarrow> sipIntInstanceDef \<Rightarrow> pydict" where
  "add_member u d e =
     dict_set (PyUnicode (case ii_name e of None \<Rightarrow> [] | Some nm \<Rightarrow> nm))
       (PyLong (if u then uint (ii_val e) else sint (ii_val e))) d"

text \<open>
  Where the run of the \<open>j\<close>-th enum starts in the table when the cursor starts at \<open>p\<close>:
  after the declared members of the enums before it.
\<close>

definition run_start :: "nat \<Rightarrow> sipEnumTypeDef list \<Rightarrow> nat \<Rightarrow> nat" where
  "run_start p etds j = p + sum_list (map (\<lambda>e. nat (etd_nr_members e)) (take j etds))"

text \<open>The call came back to its caller with \<open>NULL\<close> and a Python exception set.\<close>

definition returns_error ::
  "failure + (pyval option \<times> world \<times> sipEnumTypeDef \<times> nat option) \<Rightarrow> bool" where
  "returns_error r =
     (case r of
        Inl f \<Rightarrow> False
      | Inr (obj, w, etd, cur) \<Rightarrow> obj = None \<and> err w \<noteq> None)"

section \<open>Properties\<close>

subsection \<open>Integer conversions\<close>

lemma uint_range: "0 \<le> uint (v::c_int) \<and> uint v < 2 ^ 32"
  using uint_lt2p [of v] by simp

lemma sint_range: "- (2 ^ 31) \<le> sint (v::c_int) \<and> sint v < 2 ^ 31"
  using sint_ge [of v] sint_lt [of v] by simp

lemma uint_minus_one: "uint (- 1 :: c_int) = 4294967295"
  by (simp add: unsigned_minus_1_eq_mask mask_eq_exp_minus_1)

lemma long_as_unsigned_uint:
  "sip_api_long_as_unsigned_int w (PyLong (uint (v::c_int))) = (v, w)"
  using uint_range [of v] by (simp add: sip_api_long_as_unsigned_int_def)

lemma long_as_int_sint:
  "sip_api_long_as_int w (PyLong (sint (v::c_int))) = (v, w)"
  using sint_range [of v] by (simp add: sip_api_long_as_int_def)

subsection \<open>Resolution and conversion\<close>

lemma get_enum_type_cached:
  "td_py_type td = Some t \<Longrightarrow> get_enum_type h w td = (Some t, w, td)"
  by (simp add: get_enum_type_def)

lemma get_enum_type_Some:
  "get_enum_type h w td = (Some t, w1, td1) \<Longrightarrow> td_py_type td1 = Some t"
  by (auto simp: get_enum_type_def split: option.splits prod.splits if_splits)

lemma convert_to_enum_member:
  assumes "td_py_type td = Some (PyType a)"
    and "PyType_IsSubtype w c a"
    and "str_value w = Some (PyUnicode ''value'')"
  shows "sip_api_convert_to_enum h w
           (PyEnumMember c (PyLong (if IS_UNSIGNED_ENUM td then uint v else sint v))) td
           = Inr (v, w, td)"
  using assms
  by (simp add: sip_api_convert_to_enum_def get_enum_type_cached PyObject_IsInstance_def
      PyObject_GetAttr_def PyObject_GetAttrString_def Py_INCREF_def Py_DECREF_def
      long_as_unsigned_uint long_as_int_sint)

lemma convert_to_enum_not_member:
  assumes "td_py_type td = Some (PyType a)"
  shows "sip_api_convert_to_enum h w (PyLong i) td
           = Inr (- 1, w\<lparr>err := Some (TypeError (enum_expected_msg (etd_name td) ''int''))\<rparr>, td)"
  using assms
  by (simp add: sip_api_convert_to_enum_def get_enum_type_cached PyObject_IsInstance_def
      enum_expected_def Py_TYPE_name_def PyErr_Set_def)

subsection \<open>Creation\<close>

lemma members_loop_Some:
  "members_loop h u tbl i k p ms w = Inr (Some (p', ms'), w') \<Longrightarrow>
     p' = p + k \<and> (0 < k \<longrightarrow> p + k \<le> length tbl) \<and> w' = w
     \<and> ms' = foldl (add_member u) ms (take k (drop p tbl))"
proof (induction k arbitrary: i p ms w)
  case 0
  then show ?case by simp
next
  case (Suc k)
  from Suc.prems have inside: "p < length tbl"
    by (auto split: if_splits)
  from Suc.prems inside obtain ms1 where
    step: "sip_dict_set_and_discard h i
             (if h_fault h (S_PyLong_From i) then PyErr_Set MemoryError w else w) ms
             (ii_name (tbl ! p))
             (if h_fault h (S_PyLong_From i) then None
              else Some (PyLong (if u then uint (ii_val (tbl ! p)) else sint (ii_val (tbl ! p)))))
           = Inr (0, ms1, w)"
    and rest: "members_loop h u tbl (Suc i) k (Suc p) ms1 w = Inr (Some (p', ms'), w')"
    by (auto simp: sip_dict_set_and_discard_def split: if_splits sum.splits option.splits)
  from step have ms1: "ms1 = add_member u ms (tbl ! p)"
    by (auto simp: sip_dict_set_and_discard_def add_member_def split: if_splits option.splits)
  from Suc.IH [OF rest] have ih: "p' = Suc p + k" "0 < k \<longrightarrow> Suc p + k \<le> length tbl" "w' = w"
    "ms' = foldl (add_member u) ms1 (take k (drop (Suc p) tbl))"
    by simp_all
  have "take (Suc k) (drop p tbl) = tbl ! p # take k (drop (Suc p) tbl)"
    using inside by (simp add: Cons_nth_drop_Suc [symmetric])
  with ih ms1 inside show ?case by (cases k) simp_all
qed

lemma members_loop_exhausted:
  assumes "k < n"
    and "\<forall>j \<le> k. \<not> h_fault h (S_PyLong_From (i + j))"
    and "\<forall>j < k. \<not> h_fault h (S_sip_dict_set (i + j))"
    and "\<forall>j < k. p + j < length tbl \<and> ii_name (tbl ! (p + j)) \<noteq> None"
    and "length tbl \<le> p + k \<or> ii_name (tbl ! (p + k)) = None"
  shows "members_loop h u tbl i n p ms w
           = Inl (if p + k < length tbl \<and> \<not> NDEBUG h then AssertionFailed else Undefined)"
  using assms
proof (induction k arbitrary: i n p ms)
  case 0
  then obtain n' where "n = Suc n'" by (cases n) auto
  with 0 show ?case by (auto simp: sip_dict_set_and_discard_def)
next
  case (Suc k)
  from Suc.prems(1) obtain n' where n: "n = Suc n'" "k < n'" by (cases n) auto
  from Suc.prems(4) have first: "p < length tbl" "ii_name (tbl ! p) \<noteq> None"
    by (auto dest: spec [of _ 0])
  from Suc.prems(2) have f1: "\<not> h_fault h (S_PyLong_From i)"
    by (auto dest: spec [of _ 0])
  from Suc.prems(3) have f2: "\<not> h_fault h (S_sip_dict_set i)"
    by (auto dest: spec [of _ 0])
  have a: "\<forall>j \<le> k. \<not> h_fault h (S_PyLong_From (Suc i + j))"
    using Suc.prems(2) by (auto dest: spec [of _ "Suc j" for j])
  have b: "\<forall>j < k. \<not> h_fault h (S_sip_dict_set (Suc i + j))"
    using Suc.prems(3) by (auto dest: spec [of _ "Suc j" for j])
  have c: "\<forall>j < k. Suc p + j < length tbl \<and> ii_name (tbl ! (Suc p + j)) \<noteq> None"
    using Suc.prems(4) by (auto dest: spec [of _ "Suc j" for j])
  have d: "length tbl \<le> Suc p + k \<or> ii_name (tbl ! (Suc p + k)) = None"
    using Suc.prems(5) by simp
  note ih = Suc.IH [OF n(2) a b c d]
  from first obtain nm where nm: "ii_name (tbl ! p) = Some nm" by auto
  show ?case
    using n(1) first f1 f2 nm ih by (simp add: sip_dict_set_and_discard_def)
qed

lemma set_qualname_Some:
  "set_qualname h w client etd name kw = Inr (Some kw1, w1) \<Longrightarrow> w1 = w"
  by (auto simp: set_qualname_def sip_get_qualname_def
      split: if_splits option.splits prod.splits pyval.splits)

lemma PyObject_Call_Some:
  assumes "PyObject_Call h w callable args kw = Inr (Some obj, w1)"
  shows "\<exists>fa base nm. callable = Some (PyType fa) \<and> heap w fa = Some base
           \<and> fst args = PyUnicode nm \<and> obj = PyType (next_addr w)
           \<and> w1 = w\<lparr>heap := (heap w)(next_addr w := Some
                     \<lparr>ob_refcnt = 1, ob_type_name = ob_type_name base, tp_name = nm,
                      tp_mro = fa # tp_mro base, en_members = snd args,
                      en_kwargs = kw, tp_dict = [], tp_slots = []\<rparr>),
                   next_addr := Suc (next_addr w)\<rparr>"
  using assms
  by (auto simp: PyObject_Call_def PyErr_Set_def split: option.splits pyval.splits if_splits)

lemma finish_enum_Some:
  assumes "finish_enum h w etd (PyType a) (PyCapsule p) = Inr (Some obj, w1, etd1)"
  shows "\<exists>c c1. heap w a = Some c \<and> obj = PyType a \<and> etd1 = etd\<lparr>td_py_type := Some (PyType a)\<rparr>
           \<and> w1 = w\<lparr>heap := (heap w)(a := Some c1)\<rparr>
           \<and> en_members c1 = en_members c \<and> tp_mro c1 = tp_mro c \<and> ob_refcnt c1 = ob_refcnt c"
  using assms
  by (auto simp: finish_enum_def PyObject_SetAttr_def Py_INCREF_def Py_DECREF_def
      sip_add_type_slots_def PyErr_Set_def Let_def
      split: option.splits pyval.splits if_splits sum.splits)

lemma create_tail_Some:
  assumes "create_tail h w client etd name members = Inr (Some obj, w1, etd1)"
  shows "\<exists>fa base c. enum_factory w etd = Some (PyType fa) \<and> heap w fa = Some base
           \<and> obj = PyType (next_addr w) \<and> etd1 = etd\<lparr>td_py_type := Some obj\<rparr>
           \<and> w1 = w\<lparr>heap := (heap w)(next_addr w := Some c), next_addr := Suc (next_addr w)\<rparr>
           \<and> en_members c = members \<and> tp_mro c = fa # tp_mro base \<and> ob_refcnt c = 1"
proof -
  from assms obtain k kw w0 obj0 w2 where
    q: "set_qualname h w client etd name (dict_set k (em_nameobj client) []) = Inr (Some kw, w0)"
    and c: "PyObject_Call h w0 (enum_factory w0 etd) (name, members) kw = Inr (Some obj0, w2)"
    and f: "finish_enum h w2 etd obj0 (PyCapsule (td_addr etd)) = Inr (Some obj, w1, etd1)"
    by (auto simp: create_tail_def split: if_splits option.splits sum.splits)
  from q have w0: "w0 = w" by (rule set_qualname_Some)
  from PyObject_Call_Some [OF c] w0 obtain fa base nm where
    fa: "enum_factory w etd = Some (PyType fa)" "heap w fa = Some base" "obj0 = PyType (next_addr w)"
    and w2: "w2 = w\<lparr>heap := (heap w)(next_addr w := Some
                     \<lparr>ob_refcnt = 1, ob_type_name = ob_type_name base, tp_name = nm,
                      tp_mro = fa # tp_mro base, en_members = members,
                      en_kwargs = kw, tp_dict = [], tp_slots = []\<rparr>),
                   next_addr := Suc (next_addr w)\<rparr>"
    by auto
  from finish_enum_Some [OF f [unfolded fa(3)]] obtain c c1 where
    fin: "heap w2 (next_addr w) = Some c" "obj = PyType (next_addr w)"
      "etd1 = etd\<lparr>td_py_type := Some (PyType (next_addr w))\<rparr>"
      "w1 = w2\<lparr>heap := (heap w2)(next_addr w := Some c1)\<rparr>"
      "en_members c1 = en_members c" "tp_mro c1 = tp_mro c" "ob_refcnt c1 = ob_refcnt c"
    by auto
  from fin(1) w2 have c: "en_members c = members" "tp_mro c = fa # tp_mro base" "ob_refcnt c = 1"
    by auto
  have w1: "w1 = w\<lparr>heap := (heap w)(next_addr w := Some c1), next_addr := Suc (next_addr w)\<rparr>"
    using fin(4) w2 by simp
  show ?thesis
    apply (rule exI [of _ fa], rule exI [of _ base], rule exI [of _ c1])
    using fa fin(2,3,5,6,7) c w1 by simp
qed

lemma create_enum_object_Some:
  assumes "create_enum_object h w client etd (Some p) tbl name = Inr (Some obj, w1, etd1, cur1)"
  shows "\<exists>fa base c. enum_factory w etd = Some (PyType fa) \<and> heap w fa = Some base
           \<and> obj = PyType (next_addr w) \<and> etd1 = etd\<lparr>td_py_type := Some obj\<rparr>
           \<and> cur1 = Some (p + nat (etd_nr_members etd))
           \<and> (0 < etd_nr_members etd \<longrightarrow> p + nat (etd_nr_members etd) \<le> length tbl)
           \<and> w1 = w\<lparr>heap := (heap w)(next_addr w := Some c), next_addr := Suc (next_addr w)\<rparr>
           \<and> en_members c = foldl (add_member (IS_UNSIGNED_ENUM etd)) []
                 (take (nat (etd_nr_members etd)) (drop p tbl))
           \<and> tp_mro c = fa # tp_mro base \<and> ob_refcnt c = 1"
proof -
  from assms obtain p' ms w0 where
    l: "members_loop h (IS_UNSIGNED_ENUM etd) tbl 0 (nat (etd_nr_members etd)) p [] w
          = Inr (Some (p', ms), w0)"
    and t: "create_tail h w0 client etd name ms = Inr (Some obj, w1, etd1)"
    and cur: "cur1 = Some p'"
    by (auto simp: create_enum_object_def split: if_splits option.splits sum.splits)
  from members_loop_Some [OF l] have
    m: "p' = p + nat (etd_nr_members etd)"
      "0 < nat (etd_nr_members etd) \<longrightarrow> p + nat (etd_nr_members etd) \<le> length tbl" "w0 = w"
      "ms = foldl (add_member (IS_UNSIGNED_ENUM etd)) [] (take (nat (etd_nr_members etd)) (drop p tbl))"
    by simp_all
  from create_tail_Some [OF t] m cur show ?thesis by auto
qed

lemma sip_enum_create_ok:
  assumes "sip_enum_create h w client etd (Some p) tbl dict = Inr (rc, w1, etd1, cur1, dict1)"
    and "0 \<le> rc"
  shows "\<exists>c. rc = 0 \<and> etd1 = etd\<lparr>td_py_type := Some (PyType (next_addr w))\<rparr>
           \<and> cur1 = Some (p + nat (etd_nr_members etd))
           \<and> (0 < etd_nr_members etd \<longrightarrow> p + nat (etd_nr_members etd) \<le> length tbl)
           \<and> w1 = w\<lparr>heap := (heap w)(next_addr w := Some c), next_addr := Suc (next_addr w)\<rparr>
           \<and> en_members c = foldl (add_member (IS_UNSIGNED_ENUM etd)) []
                 (take (nat (etd_nr_members etd)) (drop p tbl))
           \<and> dict1 = dict_set (PyUnicode (etd_name etd)) (PyType (next_addr w)) dict"
proof -
  from assms obtain obj w0 where
    c: "create_enum_object h w client etd (Some p) tbl (PyUnicode (etd_name etd))
          = Inr (Some obj, w0, etd1, cur1)"
    and w1: "w1 = Py_DECREF obj (Py_DECREF (PyUnicode (etd_name etd)) (Py_INCREF obj w0))"
    and rc: "rc = 0"
    and d: "dict1 = dict_set (PyUnicode (etd_name etd)) obj dict"
    by (auto simp: sip_enum_create_def split: if_splits sum.splits option.splits)
  from create_enum_object_Some [OF c] obtain fa base c0 where
    r: "obj = PyType (next_addr w)" "etd1 = etd\<lparr>td_py_type := Some obj\<rparr>"
      "cur1 = Some (p + nat (etd_nr_members etd))"
      "0 < etd_nr_members etd \<longrightarrow> p + nat (etd_nr_members etd) \<le> length tbl"
      "w0 = w\<lparr>heap := (heap w)(next_addr w := Some c0), next_addr := Suc (next_addr w)\<rparr>"
      "en_members c0 = foldl (add_member (IS_UNSIGNED_ENUM etd)) []
                 (take (nat (etd_nr_members etd)) (drop p tbl))"
      "ob_refcnt c0 = 1"
    by auto
  have "w1 = w\<lparr>heap := (heap w)(next_addr w := Some (c0\<lparr>ob_refcnt := Suc 0\<rparr>)),
              next_addr := Suc (next_addr w)\<rparr>"
    using w1 r(1,5,7) by (simp add: Py_INCREF_def Py_DECREF_def)
  then show ?thesis
    using rc d r by (intro exI [of _ "c0\<lparr>ob_refcnt := Suc 0\<rparr>"]) simp
qed

lemma register_enums_ok:
  "register_enums h w client etds (Some p) tbl dict = Inr (rc, w', etds', cur', dict') \<Longrightarrow> 0 \<le> rc \<Longrightarrow>
     cur' = Some (run_start p etds (length etds)) \<and> length etds' = length etds
     \<and> next_addr w' = next_addr w + length etds
     \<and> (\<forall>a < next_addr w. heap w' a = heap w a)
     \<and> (\<forall>j < length etds. td_py_type (etds' ! j) = Some (PyType (next_addr w + j))
           \<and> (\<exists>c. heap w' (next_addr w + j) = Some c
                 \<and> en_members c = foldl (add_member (IS_UNSIGNED_ENUM (etds ! j))) []
                      (take (nat (etd_nr_members (etds ! j))) (drop (run_start p etds j) tbl))))"
proof (induction etds arbitrary: w p dict rc w' etds' cur' dict')
  case Nil
  then show ?case by (simp add: run_start_def)
next
  case (Cons etd etds)
  from Cons.prems obtain rc1 w1 etd1 cur1 dict1 etds2 where
    one: "sip_enum_create h w client etd (Some p) tbl dict = Inr (rc1, w1, etd1, cur1, dict1)"
    and rc1: "0 \<le> rc1"
    and rest: "register_enums h w1 client etds cur1 tbl dict1 = Inr (rc, w', etds2, cur', dict')"
    and etds': "etds' = etd1 # etds2"
    by (auto split: sum.splits if_splits)
  from sip_enum_create_ok [OF one rc1] obtain c where
    s: "etd1 = etd\<lparr>td_py_type := Some (PyType (next_addr w))\<rparr>"
      "cur1 = Some (p + nat (etd_nr_members etd))"
      "w1 = w\<lparr>heap := (heap w)(next_addr w := Some c), next_addr := Suc (next_addr w)\<rparr>"
      "en_members c = foldl (add_member (IS_UNSIGNED_ENUM etd)) []
                 (take (nat (etd_nr_members etd)) (drop p tbl))"
    by auto
  note ih = Cons.IH [OF rest [unfolded s(2)] Cons.prems(2)]
  have start: "run_start (p + nat (etd_nr_members etd)) etds j = run_start p (etd # etds) (Suc j)" for j
    by (simp add: run_start_def)
  have na: "next_addr w1 = Suc (next_addr w)" and hp: "heap w1 = (heap w)(next_addr w := Some c)"
    using s(3) by simp_all
  have cur: "cur' = Some (run_start p (etd # etds) (length (etd # etds)))"
    using ih start by simp
  have len: "length etds' = length (etd # etds)"
    using ih etds' by simp
  have nxt: "next_addr w' = next_addr w + length (etd # etds)"
    using ih na by simp
  have old: "\<forall>a < next_addr w. heap w' a = heap w a"
    using ih na hp by simp
  have new: "td_py_type (etds' ! j) = Some (PyType (next_addr w + j))
           \<and> (\<exists>c. heap w' (next_addr w + j) = Some c
                 \<and> en_members c = foldl (add_member (IS_UNSIGNED_ENUM ((etd # etds) ! j))) []
                      (take (nat (etd_nr_members ((etd # etds) ! j)))
                         (drop (run_start p (etd # etds) j) tbl)))"
    if j: "j < length (etd # etds)" for j
  proof (cases j)
    case 0
    have "heap w' (next_addr w) = Some c"
      using ih na hp by simp
    then show ?thesis
      using 0 etds' s(1,4) by (simp add: run_start_def)
  next
    case (Suc i)
    with j have "i < length etds" by simp
    with ih have "td_py_type (etds2 ! i) = Some (PyType (next_addr w1 + i))
           \<and> (\<exists>c. heap w' (next_addr w1 + i) = Some c
                 \<and> en_members c = foldl (add_member (IS_UNSIGNED_ENUM (etds ! i))) []
                      (take (nat (etd_nr_members (etds ! i)))
                         (drop (run_start (p + nat (etd_nr_members etd)) etds i) tbl)))"
      by blast
    then show ?thesis
      using Suc etds' na start by simp
  qed
  from cur len nxt old new show ?case by blast
qed

text \<open>
  Every member of a class made by \<open>create_enum_object\<close> has the host value of a table
  entry of its run: the entry's value read as unsigned or as signed.
\<close>

lemma dict_set_values:
  "(k', x) \<in> set (dict_set k v d) \<Longrightarrow> x = v \<or> (k', x) \<in> set d"
  by (induction d) (auto split: if_splits)

lemma add_member_values:
  "(k, x) \<in> set (foldl (add_member u) d es) \<Longrightarrow>
     (k, x) \<in> set d \<or> (\<exists>e \<in> set es. x = PyLong (if u then uint (ii_val e) else sint (ii_val e)))"
proof (induction es arbitrary: d)
  case Nil
  then show ?case by simp
next
  case (Cons e es)
  from Cons.IH [of "add_member u d e"] Cons.prems
  consider "(k, x) \<in> set (add_member u d e)"
    | "\<exists>e' \<in> set es. x = PyLong (if u then uint (ii_val e') else sint (ii_val e'))"
    by auto
  then show ?case
  proof cases
    case 1
    then show ?thesis
      by (auto simp: add_member_def dest: dict_set_values)
  next
    case 2
    then show ?thesis by auto
  qed
qed

lemma created_member_values:
  assumes "create_enum_object h w client etd (Some p) tbl name = Inr (Some obj, w1, etd1, cur1)"
    and "heap w1 (next_addr w) = Some c"
    and "(k, x) \<in> set (en_members c)"
  shows "\<exists>e \<in> set (take (nat (etd_nr_members etd)) (drop p tbl)).
           x = PyLong (if IS_UNSIGNED_ENUM etd1 then uint (ii_val e) else sint (ii_val e))"
proof -
  from create_enum_object_Some [OF assms(1)] assms(2) have
    "en_members c = foldl (add_member (IS_UNSIGNED_ENUM etd)) []
                 (take (nat (etd_nr_members etd)) (drop p tbl))"
    and "IS_UNSIGNED_ENUM etd1 = IS_UNSIGNED_ENUM etd"
    by (auto simp: IS_UNSIGNED_ENUM_def)
  with assms(3) add_member_values [of k x "IS_UNSIGNED_ENUM etd" "[]"] show ?thesis
    by auto
qed

subsection \<open>Runs on the concrete host\<close>

lemmas create_defs = create_enum_object_def create_tail_def finish_enum_def set_qualname_def
  sip_dict_set_and_discard_def PyObject_Call_def PyObject_SetAttr_def enum_factory_def
  IS_UNSIGNED_ENUM_def Py_INCREF_def Py_DECREF_def sip_add_type_slots_def PyErr_Set_def

lemmas py_defs = py_host_def py_ready_def py_client_def py_etd_def py_table_def py_class_def
  py_color_world_def py_color_class_def py_made_def

lemma members_loop_unroll:
  "members_loop h u tbl i 1 = members_loop h u tbl i (Suc 0)"
  "members_loop h u tbl i 2 = members_loop h u tbl i (Suc (Suc 0))"
  "members_loop h u tbl i 3 = members_loop h u tbl i (Suc (Suc (Suc 0)))"
  by (simp_all add: numeral_2_eq_2 numeral_3_eq_3)

lemma py_flag_created:
  "create_enum_object py_host py_ready py_client (py_etd SIP_ENUM_INT_FLAG 2) (Some 0) py_table
     (PyUnicode ''Color'')
   = Inr (Some (PyType 4), py_flag_world, py_made SIP_ENUM_INT_FLAG, Some 2)"
  by (simp add: create_defs py_defs py_flag_world_def members_loop_unroll uint_minus_one)

lemma py_int_created:
  "create_enum_object py_host py_ready py_client (py_etd SIP_ENUM_INT_ENUM 2) (Some 0) py_table
     (PyUnicode ''Color'')
   = Inr (Some (PyType 4), py_int_world, py_made SIP_ENUM_INT_ENUM, Some 2)"
  by (simp add: create_defs py_defs py_int_world_def members_loop_unroll)

section \<open>The claims\<close>

text \<open>
  C1. Round trip: for every enum type descriptor and every native value \<open>v\<close> whose host
  value is the value of a member of the resolved enum class, \<open>sip_api_convert_from_enum\<close>
  yields a member object and \<open>sip_api_convert_to_enum\<close> applied to it yields \<open>v\<close>
  again, with the interpreter state and the descriptor unchanged in between. The host
  value of \<open>v\<close> is \<open>v\<close> read as unsigned for the unsigned flavours and as signed
  otherwise, which is also how \<open>create_enum_object\<close> makes the member values
  (\<open>created_member_values\<close>).
\<close>

theorem enum_round_trip:
  assumes "get_enum_type h w td = (Some (PyType a), w1, td1)"
    and "heap w1 a = Some c"
    and "PyLong (if IS_UNSIGNED_ENUM td1 then uint v else sint v) \<in> set (map snd (en_members c))"
    and "\<not> h_fault h S_PyObject_CallFunction"
    and "str_value w1 = Some (PyUnicode ''value'')"
  shows "\<exists>m. sip_api_convert_from_enum h w v td = Inr (Some m, w1, td1)
            \<and> sip_api_convert_to_enum h w1 m td1 = Inr (v, w1, td1)"
proof -
  let ?m = "PyEnumMember a (PyLong (if IS_UNSIGNED_ENUM td1 then uint v else sint v))"
  have slot: "td_py_type td1 = Some (PyType a)"
    using assms(1) by (rule get_enum_type_Some)
  have fwd: "sip_api_convert_from_enum h w v td = Inr (Some ?m, w1, td1)"
    using assms by (simp add: sip_api_convert_from_enum_def PyObject_CallFunction_def)
  have bwd: "sip_api_convert_to_enum h w1 ?m td1 = Inr (v, w1, td1)"
    by (rule convert_to_enum_member [OF slot _ assms(5)]) (simp add: PyType_IsSubtype_def)
  from fwd bwd show ?thesis by blast
qed

text \<open>
  The enum \<open>Color\<close> made by \<open>create_enum_object\<close> as an integer flag from the table
  entries \<open>A = 1\<close> and \<open>B = -1\<close>: the native value -1 goes to the member with the
  host value 4294967295 and comes back as -1.
\<close>

theorem enum_round_trip_witness:
  "create_enum_object py_host py_ready py_client (py_etd SIP_ENUM_INT_FLAG 2) (Some 0) py_table
     (PyUnicode ''Color'')
     = Inr (Some (PyType 4), py_flag_world, py_made SIP_ENUM_INT_FLAG, Some 2)
   \<and> (\<exists>m. sip_api_convert_from_enum py_host py_flag_world (- 1) (py_made SIP_ENUM_INT_FLAG)
              = Inr (Some m, py_flag_world, py_made SIP_ENUM_INT_FLAG)
          \<and> sip_api_convert_to_enum py_host py_flag_world m (py_made SIP_ENUM_INT_FLAG)
              = Inr (- 1, py_flag_world, py_made SIP_ENUM_INT_FLAG))"
proof
  show "create_enum_object py_host py_ready py_client (py_etd SIP_ENUM_INT_FLAG 2) (Some 0) py_table
     (PyUnicode ''Color'')
     = Inr (Some (PyType 4), py_flag_world, py_made SIP_ENUM_INT_FLAG, Some 2)"
    by (rule py_flag_created)
  show "\<exists>m. sip_api_convert_from_enum py_host py_flag_world (- 1) (py_made SIP_ENUM_INT_FLAG)
              = Inr (Some m, py_flag_world, py_made SIP_ENUM_INT_FLAG)
          \<and> sip_api_convert_to_enum py_host py_flag_world m (py_made SIP_ENUM_INT_FLAG)
              = Inr (- 1, py_flag_world, py_made SIP_ENUM_INT_FLAG)"
    by (rule enum_round_trip [where a = 4 and c = "py_color_class [3, 2, 0]
              [(PyUnicode ''A'', PyLong 1), (PyUnicode ''B'', PyLong 4294967295)]"])
      (simp_all add: get_enum_type_def py_defs py_flag_world_def IS_UNSIGNED_ENUM_def
        uint_minus_one)
qed

text \<open>
  C2 (the code differs). \<open>create_enum_object\<close> writes the new object into the
  descriptor's slot (line 312) before it attaches the capsule (line 314). On the host
  where that \<open>PyObject_SetAttr\<close> fails, the call returns \<open>NULL\<close> with the exception
  set and the object released, and the slot still holds the released object: the
  resolver \<open>get_enum_type\<close> hands it out.
\<close>

theorem slot_written_before_attach:
  "(case create_enum_object py_host_setattr_fails py_ready py_client (py_etd SIP_ENUM_ENUM 2)
           (Some 0) py_table (PyUnicode ''Color'') of
      Inl f \<Rightarrow> False
    | Inr (obj, w, etd, cur) \<Rightarrow>
        obj = None \<and> err w = Some MemoryError \<and> td_py_type etd = Some (PyType 4)
        \<and> heap w 4 = None
        \<and> get_enum_type py_host_setattr_fails w etd = (Some (PyType 4), w, etd))"
  by (simp add: create_defs py_defs py_host_setattr_fails_def members_loop_unroll
      get_enum_type_def)

text \<open>
  C3 (as the claim states it, refuted). With the table \<open>A, B\<close> and its terminating
  entry, a descriptor that declares three members does not make \<open>create_enum_object\<close>
  return an error: with assertions compiled in the process aborts at the assertion of
  line 247, with \<open>NDEBUG\<close> the terminating entry's \<open>NULL\<close> name is used.
\<close>

theorem exhaustion_aborts:
  "create_enum_object py_host py_ready py_client (py_etd SIP_ENUM_ENUM 3) (Some 0) py_table
     (PyUnicode ''Color'') = Inl AssertionFailed
   \<and> \<not> returns_error (create_enum_object py_host py_ready py_client (py_etd SIP_ENUM_ENUM 3)
          (Some 0) py_table (PyUnicode ''Color''))
   \<and> create_enum_object (py_host\<lparr>NDEBUG := True\<rparr>) py_ready py_client (py_etd SIP_ENUM_ENUM 3)
        (Some 0) py_table (PyUnicode ''Color'') = Inl Undefined
   \<and> \<not> returns_error (create_enum_object (py_host\<lparr>NDEBUG := True\<rparr>) py_ready py_client
          (py_etd SIP_ENUM_ENUM 3) (Some 0) py_table (PyUnicode ''Color''))"
  by (simp add: create_defs py_defs members_loop_unroll returns_error_def)

text \<open>
  C3, amended. The code has no exhaustion check and no such error. When the cursor has
  only \<open>k\<close> named entries left (then comes the terminating entry, or the end of the
  table) and the descriptor declares more than \<open>k\<close> members, \<open>create_enum_object\<close>,
  unless an earlier call fails, does not return to its caller: with assertions compiled
  in it aborts at the terminating entry (line 247), and otherwise (\<open>NDEBUG\<close>, or no
  terminating entry) it uses the \<open>NULL\<close> name or reads outside the table.
\<close>

theorem exhaustion_is_not_reported:
  assumes "\<not> h_fault h S_PyDict_New_members"
    and "\<forall>j \<le> k. \<not> h_fault h (S_PyLong_From j)"
    and "\<forall>j < k. \<not> h_fault h (S_sip_dict_set j)"
    and "\<forall>j < k. p + j < length tbl \<and> ii_name (tbl ! (p + j)) \<noteq> None"
    and "length tbl \<le> p + k \<or> ii_name (tbl ! (p + k)) = None"
    and "int k < etd_nr_members etd"
  shows "create_enum_object h w client etd (Some p) tbl name
           = Inl (if p + k < length tbl \<and> \<not> NDEBUG h then AssertionFailed else Undefined)"
proof -
  have "k < nat (etd_nr_members etd)"
    using assms(6) by simp
  then have "members_loop h (IS_UNSIGNED_ENUM etd) tbl 0 (nat (etd_nr_members etd)) p [] w
           = Inl (if p + k < length tbl \<and> \<not> NDEBUG h then AssertionFailed else Undefined)"
    using assms(2,3,4,5) by (intro members_loop_exhausted) simp_all
  then show ?thesis
    using assms(1) by (simp add: create_enum_object_def)
qed

text \<open>One entry left at cursor 1, two members declared, assertions compiled out.\<close>

theorem exhaustion_is_not_reported_witness:
  "create_enum_object (py_host\<lparr>NDEBUG := True\<rparr>) py_ready py_client (py_etd SIP_ENUM_FLAG 2)
     (Some 1) py_table (PyUnicode ''Color'') = Inl Undefined"
  using exhaustion_is_not_reported [of "py_host\<lparr>NDEBUG := True\<rparr>" 1 1 py_table
      "py_etd SIP_ENUM_FLAG 2" py_ready py_client "PyUnicode ''Color''"]
  by (simp add: py_defs)

text \<open>
  C4 (as the claim states it, refuted). For the integer flag \<open>Color\<close> whose member
  \<open>B\<close> has the bit pattern of -1, \<open>sip_api_convert_to_enum\<close> returns a C \<open>int\<close>, and
  the \<open>int\<close> it returns for \<open>B\<close> is -1, a negative number, not 4294967295.
\<close>

theorem unsigned_flag_result_is_negative:
  "(case sip_api_convert_from_enum py_host py_flag_world (- 1) (py_made SIP_ENUM_INT_FLAG) of
      Inr (Some m, w, td) \<Rightarrow>
        m = PyEnumMember 4 (PyLong 4294967295)
        \<and> (case sip_api_convert_to_enum py_host w m td of
              Inr (val, w1, td1) \<Rightarrow> sint val = - 1 \<and> sint val < 0 \<and> err w1 = None
            | Inl f \<Rightarrow> False)
    | _ \<Rightarrow> False)"
  by (simp add: sip_api_convert_from_enum_def sip_api_convert_to_enum_def get_enum_type_def
      PyObject_CallFunction_def PyObject_IsInstance_def PyType_IsSubtype_def
      PyObject_GetAttr_def PyObject_GetAttrString_def sip_api_long_as_unsigned_int_def
      IS_UNSIGNED_ENUM_def Py_INCREF_def Py_DECREF_def py_defs py_flag_world_def uint_minus_one)

text \<open>
  C4, amended. For an unsigned-flag enum, \<open>sip_api_convert_to_enum\<close> accepts the member
  whose host value is the full unsigned magnitude 4294967295 without raising an error,
  and returns the C \<open>int\<close> with the same 32-bit pattern: -1 as the \<open>int\<close> it is,
  4294967295 once the caller reads it as unsigned.
\<close>

theorem unsigned_flag_bit_pattern:
  assumes "etd_base_type td = SIP_ENUM_INT_FLAG"
    and "td_py_type td = Some (PyType a)"
    and "PyType_IsSubtype w c a"
    and "str_value w = Some (PyUnicode ''value'')"
  shows "\<exists>val. sip_api_convert_to_enum h w (PyEnumMember c (PyLong 4294967295)) td
                 = Inr (val, w, td)
            \<and> uint val = 4294967295 \<and> sint val = - 1"
proof -
  have "IS_UNSIGNED_ENUM td"
    using assms(1) by (simp add: IS_UNSIGNED_ENUM_def)
  with convert_to_enum_member [OF assms(2,3,4), of h "- 1"]
  have "sip_api_convert_to_enum h w (PyEnumMember c (PyLong 4294967295)) td = Inr (- 1, w, td)"
    by (simp add: uint_minus_one)
  then show ?thesis
    by (simp add: uint_minus_one)
qed

theorem unsigned_flag_bit_pattern_witness:
  "\<exists>val. sip_api_convert_to_enum py_host py_flag_world (PyEnumMember 4 (PyLong 4294967295))
            (py_made SIP_ENUM_INT_FLAG)
            = Inr (val, py_flag_world, py_made SIP_ENUM_INT_FLAG)
         \<and> uint val = 4294967295 \<and> sint val = - 1"
  by (rule unsigned_flag_bit_pattern [where a = 4])
    (simp_all add: py_defs py_flag_world_def PyType_IsSubtype_def)

text \<open>
  C5. The classifier: a descriptor is unsigned exactly for the tags unsigned-plain
  (\<open>SIP_ENUM_UINT_ENUM\<close>), flag (\<open>SIP_ENUM_FLAG\<close>) and unsigned-flag
  (\<open>SIP_ENUM_INT_FLAG\<close>); the base class called is \<open>enum.Enum\<close> for plain,
  \<open>enum.IntEnum\<close> for unsigned-plain (and for the signed integer enum), \<open>enum.Flag\<close>
  for flag and \<open>enum.IntFlag\<close> for unsigned-flag.
\<close>

theorem flavor_classifier:
  "IS_UNSIGNED_ENUM etd
      = (etd_base_type etd \<in> {SIP_ENUM_UINT_ENUM, SIP_ENUM_FLAG, SIP_ENUM_INT_FLAG})
   \<and> enum_factory w etd
      = (case etd_base_type etd of
           SIP_ENUM_ENUM \<Rightarrow> enum_type w
         | SIP_ENUM_UINT_ENUM \<Rightarrow> int_enum_type w
         | SIP_ENUM_INT_ENUM \<Rightarrow> int_enum_type w
         | SIP_ENUM_FLAG \<Rightarrow> flag_type w
         | SIP_ENUM_INT_FLAG \<Rightarrow> int_flag_type w)"
  by (cases "etd_base_type etd") (auto simp: IS_UNSIGNED_ENUM_def enum_factory_def)

text \<open>
  C6. Type mismatch: when the object is not an instance of the enum type resolved from
  the descriptor (\<open>PyObject_IsInstance\<close> answers 0, or -1 for an error),
  \<open>sip_api_convert_to_enum\<close> returns the error value -1 with a \<open>TypeError\<close> set whose
  message names the enum and the type of the object; no value of the object is returned.
\<close>

theorem type_mismatch_rejected:
  assumes "get_enum_type h w td = (Some t, w1, td1)"
    and "PyObject_IsInstance w1 obj (Some t) = Inr (r, w2)"
    and "r \<noteq> 1"
    and "Py_TYPE_name w2 obj = Some tn"
  shows "sip_api_convert_to_enum h w obj td
           = Inr (- 1, w2\<lparr>err := Some (TypeError (enum_expected_msg (etd_name td1) tn))\<rparr>, td1)"
proof -
  have "r \<le> 0"
    using assms(2,3)
    by (auto simp: PyObject_IsInstance_def split: pyval.splits if_splits)
  then show ?thesis
    using assms by (simp add: sip_api_convert_to_enum_def enum_expected_def PyErr_Set_def)
qed

text \<open>A member of \<open>IntFlag\<close> offered where a member of \<open>Color\<close> is expected.\<close>

theorem type_mismatch_rejected_witness:
  "sip_api_convert_to_enum py_host py_flag_world (PyEnumMember 3 (PyLong 1))
     (py_made SIP_ENUM_INT_FLAG)
   = Inr (- 1, py_flag_world\<lparr>err := Some (TypeError
        (enum_expected_msg ''Color'' ''IntFlag''))\<rparr>, py_made SIP_ENUM_INT_FLAG)"
  using type_mismatch_rejected [of py_host py_flag_world "py_made SIP_ENUM_INT_FLAG" "PyType 4"
      py_flag_world "py_made SIP_ENUM_INT_FLAG" "PyEnumMember 3 (PyLong 1)" 0 py_flag_world
      "''IntFlag''"]
  by (simp add: get_enum_type_def PyObject_IsInstance_def PyType_IsSubtype_def mro_of_def
      Py_TYPE_name_def py_defs py_flag_world_def)

text \<open>
  C7. Cursor exactness. A successful \<open>create_enum_object\<close> with a non-negative member
  count advances the cursor by exactly that count, and the members of the new class are
  made from exactly the entries between the old and the new position. When all enums of
  a module are registered in order with one shared cursor, the cursor ends at its start
  plus the sum of the declared counts (the table length, when the counts add up to it),
  and the \<open>j\<close>-th enum got the run that starts where the runs of the enums before it
  end: no entry is used twice and none is skipped.
\<close>

theorem cursor_exactness:
  "(create_enum_object h w client etd (Some p) tbl name = Inr (Some obj, w1, etd1, cur1)
      \<and> 0 \<le> etd_nr_members etd
    \<longrightarrow> (\<exists>q c. cur1 = Some q \<and> int q = int p + etd_nr_members etd
          \<and> obj = PyType (next_addr w) \<and> heap w1 (next_addr w) = Some c
          \<and> en_members c = foldl (add_member (IS_UNSIGNED_ENUM etd)) []
                (take (nat (etd_nr_members etd)) (drop p tbl))))
   \<and> (register_enums h w client etds (Some p) tbl dict = Inr (0, w', etds', cur', dict')
      \<and> (\<forall>e \<in> set etds. 0 \<le> etd_nr_members e)
    \<longrightarrow> (\<exists>q. cur' = Some q \<and> int q = int p + sum_list (map etd_nr_members etds))
        \<and> (\<forall>j < length etds.
              run_start p etds (Suc j) = run_start p etds j + nat (etd_nr_members (etds ! j))
              \<and> (\<exists>a c. td_py_type (etds' ! j) = Some (PyType a) \<and> heap w' a = Some c
                    \<and> en_members c = foldl (add_member (IS_UNSIGNED_ENUM (etds ! j))) []
                         (take (nat (etd_nr_members (etds ! j)))
                            (drop (run_start p etds j) tbl)))))"
proof (intro conjI impI)
  assume one: "create_enum_object h w client etd (Some p) tbl name = Inr (Some obj, w1, etd1, cur1)
      \<and> 0 \<le> etd_nr_members etd"
  from create_enum_object_Some [OF one [THEN conjunct1]] obtain c where
    "cur1 = Some (p + nat (etd_nr_members etd))" "obj = PyType (next_addr w)"
    "heap w1 (next_addr w) = Some c"
    "en_members c = foldl (add_member (IS_UNSIGNED_ENUM etd)) []
                (take (nat (etd_nr_members etd)) (drop p tbl))"
    by auto
  with one show "\<exists>q c. cur1 = Some q \<and> int q = int p + etd_nr_members etd
          \<and> obj = PyType (next_addr w) \<and> heap w1 (next_addr w) = Some c
          \<and> en_members c = foldl (add_member (IS_UNSIGNED_ENUM etd)) []
                (take (nat (etd_nr_members etd)) (drop p tbl))"
    by simp
next
  assume all: "register_enums h w client etds (Some p) tbl dict = Inr (0, w', etds', cur', dict')
      \<and> (\<forall>e \<in> set etds. 0 \<le> etd_nr_members e)"
  note ok = register_enums_ok [OF all [THEN conjunct1], simplified]
  have sums: "int (sum_list (map (\<lambda>e. nat (etd_nr_members e)) xs)) = sum_list (map etd_nr_members xs)"
    if "\<forall>e \<in> set xs. 0 \<le> etd_nr_members e" for xs
    using that by (induction xs) simp_all
  from sums [of etds] all
  have "int (run_start p etds (length etds)) = int p + sum_list (map etd_nr_members etds)"
    by (simp add: run_start_def)
  with ok show "\<exists>q. cur' = Some q \<and> int q = int p + sum_list (map etd_nr_members etds)"
    by simp
  show "\<forall>j < length etds.
              run_start p etds (Suc j) = run_start p etds j + nat (etd_nr_members (etds ! j))
              \<and> (\<exists>a c. td_py_type (etds' ! j) = Some (PyType a) \<and> heap w' a = Some c
                    \<and> en_members c = foldl (add_member (IS_UNSIGNED_ENUM (etds ! j))) []
                         (take (nat (etd_nr_members (etds ! j)))
                            (drop (run_start p etds j) tbl)))"
  proof (intro allI impI conjI)
    fix j assume j: "j < length etds"
    then show "run_start p etds (Suc j) = run_start p etds j + nat (etd_nr_members (etds ! j))"
      by (simp add: run_start_def take_Suc_conv_app_nth)
    from ok j show "\<exists>a c. td_py_type (etds' ! j) = Some (PyType a) \<and> heap w' a = Some c
                    \<and> en_members c = foldl (add_member (IS_UNSIGNED_ENUM (etds ! j))) []
                         (take (nat (etd_nr_members (etds ! j)))
                            (drop (run_start p etds j) tbl))"
      by blast
  qed
qed

text \<open>
  Two enums with one member each registered from the table \<open>A, B\<close>: the cursor ends at
  2, the number of entries of the table; the second enum got \<open>B\<close>.
\<close>

lemma py_registered:
  "\<exists>w' etds' dict'. register_enums py_host py_ready py_client py_etds (Some 0) py_table []
     = Inr (0, w', etds', Some 2, dict')"
  by (simp add: py_etds_def sip_enum_create_def create_defs py_defs members_loop_unroll)

theorem cursor_exactness_witness:
  "(\<exists>q c. Some (2::nat) = Some q \<and> int q = int 0 + etd_nr_members (py_etd SIP_ENUM_INT_FLAG 2)
       \<and> heap py_flag_world (next_addr py_ready) = Some c
       \<and> en_members c = [(PyUnicode ''A'', PyLong 1), (PyUnicode ''B'', PyLong 4294967295)])
   \<and> (\<exists>w' etds' dict' c.
     register_enums py_host py_ready py_client py_etds (Some 0) py_table []
       = Inr (0, w', etds', Some 2, dict')
     \<and> int 2 = int 0 + sum_list (map etd_nr_members py_etds)
     \<and> td_py_type (etds' ! 1) = Some (PyType 5) \<and> heap w' 5 = Some c
     \<and> en_members c = [(PyUnicode ''B'', PyLong (- 1))])"
proof
  have "create_enum_object py_host py_ready py_client (py_etd SIP_ENUM_INT_FLAG 2) (Some 0)
          py_table (PyUnicode ''Color'')
          = Inr (Some (PyType 4), py_flag_world, py_made SIP_ENUM_INT_FLAG, Some 2)
        \<and> 0 \<le> etd_nr_members (py_etd SIP_ENUM_INT_FLAG 2)"
    using py_flag_created by (simp add: py_etd_def)
  from cursor_exactness [THEN conjunct1, rule_format, OF this]
  show "\<exists>q c. Some (2::nat) = Some q \<and> int q = int 0 + etd_nr_members (py_etd SIP_ENUM_INT_FLAG 2)
       \<and> heap py_flag_world (next_addr py_ready) = Some c
       \<and> en_members c = [(PyUnicode ''A'', PyLong 1), (PyUnicode ''B'', PyLong 4294967295)]"
    by (simp add: py_defs py_flag_world_def)
next
  show "\<exists>w' etds' dict' c.
     register_enums py_host py_ready py_client py_etds (Some 0) py_table []
       = Inr (0, w', etds', Some 2, dict')
     \<and> int 2 = int 0 + sum_list (map etd_nr_members py_etds)
     \<and> td_py_type (etds' ! 1) = Some (PyType 5) \<and> heap w' 5 = Some c
     \<and> en_members c = [(PyUnicode ''B'', PyLong (- 1))]"
  proof -
  from py_registered obtain w' etds' dict' where
    run: "register_enums py_host py_ready py_client py_etds (Some 0) py_table []
            = Inr (0, w', etds', Some 2, dict')"
    by blast
  have counts: "\<forall>e \<in> set py_etds. 0 \<le> etd_nr_members e"
    by (simp add: py_etds_def py_etd_def)
  note exact = cursor_exactness [THEN conjunct2, rule_format, OF conjI, OF run counts]
  have "(1::nat) < length py_etds"
    by (simp add: py_etds_def)
  from exact [THEN conjunct2, rule_format, OF this]
  have second: "\<exists>a c. td_py_type (etds' ! 1) = Some (PyType a) \<and> heap w' a = Some c
        \<and> en_members c = foldl (add_member (IS_UNSIGNED_ENUM (py_etds ! 1))) []
             (take (nat (etd_nr_members (py_etds ! 1))) (drop (run_start 0 py_etds 1) py_table))"
    by blast
  from register_enums_ok [OF run] have "td_py_type (etds' ! 1) = Some (PyType 5)"
    by (simp add: py_etds_def py_ready_def)
  with second obtain c where
    "heap w' 5 = Some c"
    "en_members c = foldl (add_member (IS_UNSIGNED_ENUM (py_etds ! 1))) []
             (take (nat (etd_nr_members (py_etds ! 1))) (drop (run_start 0 py_etds 1) py_table))"
    by auto
  then have "heap w' 5 = Some c \<and> en_members c = [(PyUnicode ''B'', PyLong (- 1))]"
    by (simp add: py_etds_def py_etd_def py_table_def run_start_def add_member_def
        IS_UNSIGNED_ENUM_def)
  with run \<open>td_py_type (etds' ! 1) = Some (PyType 5)\<close> show ?thesis
    by (auto simp: py_etds_def py_etd_def)
  qed
qed

text \<open>
  C8 (the code differs). When interning a name fails after the four base classes were
  found, \<open>sip_enum_init\<close> returns -1 and releases nothing: the four static pointers and
  the name interned before stay set, and every base class keeps the reference that was
  taken (its count is 2, one more than the host's own). When a base class is missing,
  the references are released (the counts are back at 1) but the static pointers keep
  pointing at the classes.
\<close>

theorem failed_init_keeps_state:
  "(case sip_enum_init py_host_intern_fails py_world of
      (rc, w) \<Rightarrow>
        rc = - 1 \<and> enum_type w = Some (PyType 0) \<and> int_enum_type w = Some (PyType 1)
        \<and> flag_type w = Some (PyType 2) \<and> int_flag_type w = Some (PyType 3)
        \<and> str_dunder_sip w = Some (PyUnicode ''__sip__'')
        \<and> map (\<lambda>a. map_option ob_refcnt (heap w a)) [0, 1, 2, 3]
             = [Some 2, Some 2, Some 2, Some 2])
   \<and> (case sip_enum_init py_host_no_intflag py_world of
        (rc, w) \<Rightarrow>
          rc = - 1 \<and> enum_type w = Some (PyType 0) \<and> int_enum_type w = Some (PyType 1)
          \<and> flag_type w = Some (PyType 2) \<and> int_flag_type w = None
          \<and> map (\<lambda>a. map_option ob_refcnt (heap w a)) [0, 1, 2, 3]
               = [Some 1, Some 1, Some 1, Some 1])"
  by (simp add: sip_enum_init_def get_enum_types_def init_strings_def sip_objectify_def
      PyImport_ImportModule_def PyObject_GetAttrString_def Py_INCREF_def Py_DECREF_def
      Py_XDECREF_def PyErr_Set_def py_host_intern_fails_def py_host_no_intflag_def
      py_host_def py_enum_module_def py_world_def py_class_def)

text \<open>
  C9. \<open>sip_api_is_enum_flag\<close> answers 1 exactly when its argument is a class that is a
  subtype, itself included, of the flag base class; for every value that is not a class
  (a number, a member of an enum) it answers 0. Hence for the enum object that
  \<open>create_enum_object\<close> made it answers 1 exactly when the descriptor's flavour is flag
  or integer flag, on a host whose \<open>IntFlag\<close> derives from \<open>Flag\<close> and whose \<open>Enum\<close>
  and \<open>IntEnum\<close> do not.
\<close>

theorem is_enum_flag_classification:
  assumes "flag_type w = Some (PyType f)"
  shows "sip_api_is_enum_flag w obj
           = Inr (if (\<exists>a. obj = PyType a \<and> PyType_IsSubtype w a f) then 1 else 0,
                  if (\<exists>a. obj = PyType a) then w
                  else PyErr_Set (TypeError ''issubclass() arg 1 must be a class'') w)
      \<and> (create_enum_object h w0 client etd (Some p) tbl name = Inr (Some obj, w, etd1, cur1)
           \<and> flag_type w0 = Some (PyType f) \<and> f \<noteq> next_addr w0
           \<and> int_flag_type w0 = Some (PyType fi) \<and> PyType_IsSubtype w0 fi f
           \<and> int_enum_type w0 = Some (PyType ie) \<and> \<not> PyType_IsSubtype w0 ie f
           \<and> enum_type w0 = Some (PyType e) \<and> \<not> PyType_IsSubtype w0 e f
         \<longrightarrow> sip_api_is_enum_flag w obj
               = Inr (if etd_base_type etd = SIP_ENUM_FLAG \<or> etd_base_type etd = SIP_ENUM_INT_FLAG
                      then 1 else 0, w))"
proof
  show iff: "sip_api_is_enum_flag w obj
           = Inr (if (\<exists>a. obj = PyType a \<and> PyType_IsSubtype w a f) then 1 else 0,
                  if (\<exists>a. obj = PyType a) then w
                  else PyErr_Set (TypeError ''issubclass() arg 1 must be a class'') w)"
    using assms
    by (cases obj) (simp_all add: sip_api_is_enum_flag_def PyObject_IsSubclass_def)
  show "create_enum_object h w0 client etd (Some p) tbl name = Inr (Some obj, w, etd1, cur1)
           \<and> flag_type w0 = Some (PyType f) \<and> f \<noteq> next_addr w0
           \<and> int_flag_type w0 = Some (PyType fi) \<and> PyType_IsSubtype w0 fi f
           \<and> int_enum_type w0 = Some (PyType ie) \<and> \<not> PyType_IsSubtype w0 ie f
           \<and> enum_type w0 = Some (PyType e) \<and> \<not> PyType_IsSubtype w0 e f
         \<longrightarrow> sip_api_is_enum_flag w obj
               = Inr (if etd_base_type etd = SIP_ENUM_FLAG \<or> etd_base_type etd = SIP_ENUM_INT_FLAG
                      then 1 else 0, w)"
  proof (intro impI, elim conjE)
    assume made: "create_enum_object h w0 client etd (Some p) tbl name = Inr (Some obj, w, etd1, cur1)"
      and host: "flag_type w0 = Some (PyType f)" "f \<noteq> next_addr w0"
        "int_flag_type w0 = Some (PyType fi)" "PyType_IsSubtype w0 fi f"
        "int_enum_type w0 = Some (PyType ie)" "\<not> PyType_IsSubtype w0 ie f"
        "enum_type w0 = Some (PyType e)" "\<not> PyType_IsSubtype w0 e f"
    from create_enum_object_Some [OF made] obtain fa base c where
      r: "enum_factory w0 etd = Some (PyType fa)" "heap w0 fa = Some base"
        "obj = PyType (next_addr w0)"
        "w = w0\<lparr>heap := (heap w0)(next_addr w0 := Some c), next_addr := Suc (next_addr w0)\<rparr>"
        "tp_mro c = fa # tp_mro base"
      by auto
    have sub: "PyType_IsSubtype w (next_addr w0) f = PyType_IsSubtype w0 fa f"
      using r(2,4,5) host(2) by (auto simp: PyType_IsSubtype_def mro_of_def)
    have fac: "PyType_IsSubtype w0 fa f
                 = (etd_base_type etd = SIP_ENUM_FLAG \<or> etd_base_type etd = SIP_ENUM_INT_FLAG)"
      using r(1) host by (cases "etd_base_type etd") (auto simp: enum_factory_def PyType_IsSubtype_def)
    show "sip_api_is_enum_flag w obj
               = Inr (if etd_base_type etd = SIP_ENUM_FLAG \<or> etd_base_type etd = SIP_ENUM_INT_FLAG
                      then 1 else 0, w)"
      using iff r(3) sub fac by simp
  qed
qed

text \<open>
  The integer flag \<open>Color\<close> is a flag, the signed integer enum \<open>Color\<close> is not, the
  flag base class itself is, and a member of the flag \<open>Color\<close> is not a class.
\<close>

theorem is_enum_flag_classification_witness:
  "sip_api_is_enum_flag py_flag_world (PyType 4) = Inr (1, py_flag_world)
   \<and> sip_api_is_enum_flag py_int_world (PyType 4) = Inr (0, py_int_world)
   \<and> sip_api_is_enum_flag py_flag_world (PyType 2) = Inr (1, py_flag_world)
   \<and> sip_api_is_enum_flag py_flag_world (PyEnumMember 4 (PyLong 1))
       = Inr (0, PyErr_Set (TypeError ''issubclass() arg 1 must be a class'') py_flag_world)"
proof (intro conjI)
  have host: "flag_type py_ready = Some (PyType 2) \<and> 2 \<noteq> next_addr py_ready
      \<and> int_flag_type py_ready = Some (PyType 3) \<and> PyType_IsSubtype py_ready 3 2
      \<and> int_enum_type py_ready = Some (PyType 1) \<and> \<not> PyType_IsSubtype py_ready 1 2
      \<and> enum_type py_ready = Some (PyType 0) \<and> \<not> PyType_IsSubtype py_ready 0 2"
    by (simp add: py_ready_def py_class_def PyType_IsSubtype_def mro_of_def)
  have flag: "flag_type py_flag_world = Some (PyType 2)"
    by (simp add: py_defs py_flag_world_def)
  have int: "flag_type py_int_world = Some (PyType 2)"
    by (simp add: py_defs py_int_world_def)
  from is_enum_flag_classification [OF flag, THEN conjunct2, rule_format,
      OF conjI, OF py_flag_created host]
  show "sip_api_is_enum_flag py_flag_world (PyType 4) = Inr (1, py_flag_world)"
    by (simp add: py_etd_def)
  from is_enum_flag_classification [OF int, THEN conjunct2, rule_format,
      OF conjI, OF py_int_created host]
  show "sip_api_is_enum_flag py_int_world (PyType 4) = Inr (0, py_int_world)"
    by (simp add: py_etd_def)
  from is_enum_flag_classification [OF flag, THEN conjunct1, of "PyType 2"]
  show "sip_api_is_enum_flag py_flag_world (PyType 2) = Inr (1, py_flag_world)"
    by (simp add: PyType_IsSubtype_def)
  from is_enum_flag_classification [OF flag, THEN conjunct1, of "PyEnumMember 4 (PyLong 1)"]
  show "sip_api_is_enum_flag py_flag_world (PyEnumMember 4 (PyLong 1))
       = Inr (0, PyErr_Set (TypeError ''issubclass() arg 1 must be a class'') py_flag_world)"
    by simp
qed

text \<open>
  C10. The return value -1 of \<open>sip_api_convert_to_enum\<close> is both a result and the error
  value. For a signed enum, converting a member whose value is -1 succeeds and returns
  -1 with the error state untouched; converting the Python integer -1, which is not a
  member, fails and returns -1 as well. The two calls differ only in the error state
  they leave behind.
\<close>

theorem minus_one_is_ambiguous:
  assumes "\<not> IS_UNSIGNED_ENUM td"
    and "td_py_type td = Some (PyType a)"
    and "PyType_IsSubtype w c a"
    and "str_value w = Some (PyUnicode ''value'')"
    and "err w = None"
  shows "sip_api_convert_to_enum h w (PyEnumMember c (PyLong (- 1))) td = Inr (- 1, w, td)
       \<and> sip_api_convert_to_enum h w (PyLong (- 1)) td
           = Inr (- 1, w\<lparr>err := Some (TypeError (enum_expected_msg (etd_name td) ''int''))\<rparr>, td)
       \<and> err w = None
       \<and> err (w\<lparr>err := Some (TypeError (enum_expected_msg (etd_name td) ''int''))\<rparr>) \<noteq> None"
proof -
  have "sip_api_convert_to_enum h w
          (PyEnumMember c (PyLong (if IS_UNSIGNED_ENUM td then uint (- 1 :: c_int)
                                   else sint (- 1 :: c_int)))) td
           = Inr (- 1, w, td)"
    using assms(2,3,4) by (rule convert_to_enum_member)
  then have ok: "sip_api_convert_to_enum h w (PyEnumMember c (PyLong (- 1))) td = Inr (- 1, w, td)"
    using assms(1) by simp
  from ok convert_to_enum_not_member [OF assms(2)] assms(5) show ?thesis
    by simp
qed

text \<open>The signed integer enum \<open>Color\<close> with the member \<open>B = -1\<close>.\<close>

theorem minus_one_is_ambiguous_witness:
  "sip_api_convert_to_enum py_host py_int_world (PyEnumMember 4 (PyLong (- 1)))
     (py_made SIP_ENUM_INT_ENUM) = Inr (- 1, py_int_world, py_made SIP_ENUM_INT_ENUM)
   \<and> sip_api_convert_to_enum py_host py_int_world (PyLong (- 1)) (py_made SIP_ENUM_INT_ENUM)
       = Inr (- 1, py_int_world\<lparr>err := Some (TypeError (enum_expected_msg ''Color'' ''int''))\<rparr>,
              py_made SIP_ENUM_INT_ENUM)"
  using minus_one_is_ambiguous [of "py_made SIP_ENUM_INT_ENUM" 4 py_int_world 4 py_host]
  by (simp add: py_defs py_int_world_def IS_UNSIGNED_ENUM_def PyType_IsSubtype_def)


end
